theory Spec2Isabelle
  imports Main "HOL-Library.Sublist"
begin

section \<open>Python values, paths and errors\<close>

text \<open>
  The immutable Python values that occur as option defaults and as the values an options
  file defines.
\<close>

datatype pyval = PyNone | PyStr string | PyInt int

text \<open>
  An absolute, normalised path is the list of its components below the root: the root is
  \<open>[]\<close>, \<open>os.path.join p name\<close> appends a component, \<open>os.path.dirname\<close>
  drops the last one and leaves the root as it is.
\<close>

type_synonym path = "string list"

definition path_join :: "path \<Rightarrow> string \<Rightarrow> path" where
  "path_join p name = p @ [name]"

definition dirname :: "path \<Rightarrow> path" where
  "dirname p = butlast p"

text \<open>
  Every exception the modelled code raises or lets through is a value. \<open>NoSuchObject\<close>
  is not a Python exception: it stands for following a reference that names no object of
  the right kind, which no Python program can do.
\<close>

datatype error =
    ValueError string
  | IOError path
  | OSError int
  | IndexError
  | AttributeError
  | SystemExit int
  | BuildbotNotRunningError
  | EncodingPreconditionError
  | PyExecError string
  | UsageError string
  | NoSuchObject

section \<open>Decimal rendering\<close>

text \<open>
  Python's \<open>'%d' % n\<close> and \<open>str(n)\<close> on an integer: the decimal digits, most
  significant first, with a leading minus sign for a negative number.
\<close>

definition digit :: "nat \<Rightarrow> char" where
  "digit d = char_of (48 + d)"

function fmt_nat :: "nat \<Rightarrow> string" where
  "fmt_nat n = (if n < 10 then [digit n] else fmt_nat (n div 10) @ [digit (n mod 10)])"
  by pat_completeness auto
termination
  by (relation "measure (\<lambda>n. n)") auto

declare fmt_nat.simps [simp del]

definition fmt_d :: "int \<Rightarrow> string" where
  "fmt_d i = (if i < 0 then CHR ''-'' # fmt_nat (nat (- i)) else fmt_nat (nat i))"

text \<open>Reading a digit string back, used only to show that the rendering is injective.\<close>

definition digit_val :: "char \<Rightarrow> nat" where
  "digit_val c = of_char c - 48"

definition read_nat :: "string \<Rightarrow> nat" where
  "read_nat s = foldl (\<lambda>acc c. 10 * acc + digit_val c) 0 s"

section \<open>The wire format of a build-trial request\<close>

subsection \<open>The test suite's reference encoder\<close>

text \<open>
  \<open>makeNetstring\<close> of \<open>test_clients_tryclient.py\<close>:
  \<^verbatim>\<open>''.join(['%d:%s,' % (len(s), s) for s in strings])\<close>
\<close>

definition makeNetstring :: "string list \<Rightarrow> string" where
  "makeNetstring strings =
     concat (map (\<lambda>s. fmt_d (int (length s)) @ '':'' @ s @ '','') strings)"

subsection \<open>The request and its encoder\<close>

text \<open>
  The request of the spec's data model. The optional strings are carried as strings, the
  absent value being the empty one: the encoder only asks whether \<open>who\<close> and
  \<open>comment\<close> are empty. \<open>properties\<close> is the mapping as a list of its items.
\<close>

record BuildTrialRequest =
  buildSetId :: string
  branch :: string
  baseRevision :: string
  patchLevel :: int
  diff :: string
  repository :: string
  project :: string
  who :: string
  comment :: string
  builderNames :: "string list"
  properties :: "(string \<times> string) list"

text \<open>
  Modelled from the spec: \<open>tryclient.createJobfile\<close> is called by the tests but its
  module is not among the sources. The spec's data model gives the invariant of a request
  that may be encoded.
\<close>

definition valid_request :: "BuildTrialRequest \<Rightarrow> bool" where
  "valid_request r \<longleftrightarrow> 0 \<le> patchLevel r \<and> builderNames r \<noteq> []"

text \<open>
  Modelled from the spec: the version is chosen by an ordered set of predicates evaluated
  top-down, stopping at the first match (spec section 9), with the triggers of section 4.2.
\<close>

definition select_version :: "BuildTrialRequest \<Rightarrow> nat" where
  "select_version r =
     (if properties r \<noteq> [] then 5
      else if comment r \<noteq> [] then 4
      else if who r \<noteq> [] then 3
      else 2)"

text \<open>
  Modelled from the spec: which populated fields the fixed field list of a version has a
  place for. Version 2 has none for \<open>who\<close>, \<open>comment\<close> and \<open>properties\<close>, version
  3 adds \<open>who\<close>, version 4 adds \<open>comment\<close>, version 5 carries the whole request.
\<close>

definition can_express :: "nat \<Rightarrow> BuildTrialRequest \<Rightarrow> bool" where
  "can_express v r \<longleftrightarrow>
     (who r = [] \<or> 3 \<le> v) \<and> (comment r = [] \<or> 4 \<le> v) \<and> (properties r = [] \<or> 5 \<le> v)"

text \<open>
  Modelled from the spec: the length-prefixing rule of section 4.2, with the separator
  characters the tests expect.
\<close>

definition ns :: "string \<Rightarrow> string" where
  "ns s = fmt_d (int (length s)) @ [CHR '':''] @ s @ [CHR '','']"

text \<open>
  Modelled from the spec: the fields of each version in wire order. The structured-data
  document of version 5 is produced by the JSON library, a parameter here.
\<close>

definition wire_fields :: "(BuildTrialRequest \<Rightarrow> string) \<Rightarrow> BuildTrialRequest \<Rightarrow> string list" where
  "wire_fields dumps r =
     (let version = select_version r in
      if version = 5 then [fmt_d (int version), dumps r]
      else [fmt_d (int version), buildSetId r, branch r, baseRevision r,
            fmt_d (patchLevel r), diff r, repository r, project r]
           @ (if 3 \<le> version then [who r] else [])
           @ (if 4 \<le> version then [comment r] else [])
           @ builderNames r)"

text \<open>
  Modelled from the spec: the encoder. A request that breaks the invariant is a caller
  error raised before any byte is written (spec section 7); otherwise every field is
  length-prefixed on its own and appended to the message.
\<close>

fun append_fields :: "string \<Rightarrow> string list \<Rightarrow> string" where
  "append_fields job [] = job"
| "append_fields job (f # fs) = append_fields (job @ ns f) fs"

definition createJobfile :: "(BuildTrialRequest \<Rightarrow> string) \<Rightarrow> BuildTrialRequest \<Rightarrow> error + string" where
  "createJobfile dumps r =
     (if valid_request r then Inr (append_fields [] (wire_fields dumps r))
      else Inl EncodingPreconditionError)"

text \<open>The request of the tests, and the message \<open>test_createJobfile_v2_one_builder\<close> expects.\<close>

definition test_request :: BuildTrialRequest where
  "test_request = \<lparr> buildSetId = ''123-456'', branch = ''branch'', baseRevision = ''baserev'',
     patchLevel = 0, diff = ''diff...'', repository = ''repo'', project = ''proj'',
     who = [], comment = [], builderNames = [''runtests''], properties = [] \<rparr>"

definition test_v2_one_builder_jobstr :: string where
  "test_v2_one_builder_jobstr =
     makeNetstring [''2'', ''123-456'', ''branch'', ''baserev'', fmt_d 0, ''diff...'', ''repo'',
       ''proj'', ''runtests'']"

text \<open>The requests of \<open>test_createJobfile_v3\<close>, \<open>_v4\<close> and \<open>_v5\<close>.\<close>

definition test_request_v3 :: BuildTrialRequest where
  "test_request_v3 = test_request \<lparr> who := ''someuser'' \<rparr>"

definition test_request_v4 :: BuildTrialRequest where
  "test_request_v4 = test_request_v3 \<lparr> comment := ''insightful comment'' \<rparr>"

definition test_request_v5 :: BuildTrialRequest where
  "test_request_v5 = test_request_v4 \<lparr> properties := [(''foo'', ''bar'')] \<rparr>"

text \<open>A stand-in for the JSON library where a concrete encoder run needs one.\<close>

definition test_dumps :: "BuildTrialRequest \<Rightarrow> string" where
  "test_dumps r = ''{}''"

section \<open>The world the scripts run in\<close>

text \<open>
  A simulated directory tree: a path names a directory with its owner's uid, a regular
  file with its contents, or nothing.
\<close>

datatype node = Dir nat | File string

text \<open>
  Everything \<open>runner.py\<close> asks of its environment. \<open>py_exec\<close> is the Python
  interpreter on the text of an options file (\<open>exec options in localDict\<close>, with
  \<open>localDict\<close> empty): the names the file leaves defined, or the exception it raises.
  \<open>kill_result n pid sig\<close> is the errno of the \<open>OSError\<close> that the \<open>n\<close>-th call of
  \<open>os.kill\<close> in a run raises, if it raises. \<open>now\<close> is \<open>time.time()\<close> truncated as
  \<open>%d\<close> does.
\<close>

record world =
  files :: "path \<rightharpoonup> node"
  cwd :: path
  home :: path
  win32 :: bool
  uid :: nat
  py_exec :: "string \<Rightarrow> error + (string \<rightharpoonup> pyval)"
  py_int :: "string \<Rightarrow> int option"
  signal_number :: "string \<Rightarrow> int option"
  kill_result :: "nat \<Rightarrow> int \<Rightarrow> int \<Rightarrow> int option"
  now :: int
  md5_hexdigest :: "string \<Rightarrow> string"

text \<open>What the scripts print, and what they do to the world, in order.\<close>

datatype printed =
    Skipping path
  | ErrorWhileReading path
  | NoBuildbotTac
  | NotABuildmasterDir
  | SentSignal string
  | ProcessDead int
  | NeverSawProcessGoAway

datatype event =
    Print printed
  | Chdir path
  | Kill int int
  | Sleep nat
  | OpenWrite path
  | Write path string
  | Close path
  | Rename path path

definition isdir :: "world \<Rightarrow> path \<Rightarrow> bool" where
  "isdir w p = (case files w p of Some (Dir owner) \<Rightarrow> True | _ \<Rightarrow> False)"

definition isfile :: "world \<Rightarrow> path \<Rightarrow> bool" where
  "isfile w p = (case files w p of Some (File contents) \<Rightarrow> True | _ \<Rightarrow> False)"

definition exists :: "world \<Rightarrow> path \<Rightarrow> bool" where
  "exists w p = (files w p \<noteq> None)"

text \<open>\<open>open(p, "r")\<close> followed by \<open>read()\<close>.\<close>

definition open_read :: "world \<Rightarrow> path \<Rightarrow> error + string" where
  "open_read w p = (case files w p of Some (File contents) \<Rightarrow> Inr contents | _ \<Rightarrow> Inl (IOError p))"

text \<open>\<open>os.stat(d)[stat.ST_UID]\<close> of a directory.\<close>

definition st_uid :: "world \<Rightarrow> path \<Rightarrow> nat option" where
  "st_uid w d = (case files w d of Some (Dir owner) \<Rightarrow> Some owner | _ \<Rightarrow> None)"

section \<open>Configuration discovery: \<open>loadOptionsFile\<close>\<close>

text \<open>
  The upward walk:
  \<^verbatim>\<open>
    searchpath = []
    toomany = 20
    while True:
        searchpath.append(os.path.join(here, ".buildbot"))
        next = os.path.dirname(here)
        if next == here:
            break                       # we've hit the root
        here = next
        toomany -= 1                    # just in case
        if toomany == 0:
            raise ValueError(...)
  \<close>
\<close>

function upward_walk :: "int \<Rightarrow> path \<Rightarrow> path list \<Rightarrow> error + path list" where
  "upward_walk toomany here searchpath =
     (if dirname here = here then Inr (searchpath @ [path_join here ''.buildbot''])
      else if toomany - 1 = 0 then Inl (ValueError ''infinite glories of the heavens'')
      else upward_walk (toomany - 1) (dirname here) (searchpath @ [path_join here ''.buildbot'']))"
  by pat_completeness auto
termination
proof (relation "measure (\<lambda>(toomany, here, searchpath). length here)")
  show "wf (measure (\<lambda>(toomany, here, searchpath). length here))" by simp
next
  fix toomany :: int and here :: path and searchpath :: "path list"
  assume "dirname here \<noteq> here"
  then have "here \<noteq> []" by (auto simp: dirname_def)
  then show "((toomany - 1, dirname here, searchpath @ [path_join here ''.buildbot'']),
      (toomany, here, searchpath)) \<in> measure (\<lambda>(toomany, here, searchpath). length here)"
    by (simp add: dirname_def)
qed

declare upward_walk.simps [simp del]

text \<open>
  The loop over the candidates:
  \<^verbatim>\<open>
    for d in searchpath:
        if os.path.isdir(d):
            if runtime.platformType != 'win32':
                if os.stat(d)[stat.ST_UID] != os.getuid():
                    print "skipping %s because you don't own it" % d
                    continue
            optfile = os.path.join(d, "options")
            if os.path.exists(optfile):
                try:
                    with open(optfile, "r") as f:
                        options = f.read()
                    exec options in localDict
                except:
                    print "error while reading %s" % optfile
                    raise
                break
  \<close>
  The result is what has been printed and either the exception or \<open>localDict\<close>.
\<close>

fun scan :: "world \<Rightarrow> path list \<Rightarrow> event list \<Rightarrow> event list \<times> (error + (string \<rightharpoonup> pyval))" where
  "scan w [] out = (out, Inr Map.empty)"
| "scan w (d # ds) out =
     (if isdir w d then
        (if \<not> win32 w \<and> st_uid w d \<noteq> Some (uid w) then scan w ds (out @ [Print (Skipping d)])
         else if exists w (path_join d ''options'') then
           (case open_read w (path_join d ''options'') of
              Inl e \<Rightarrow> (out @ [Print (ErrorWhileReading (path_join d ''options''))], Inl e)
            | Inr options \<Rightarrow>
                (case py_exec w options of
                   Inl e \<Rightarrow> (out @ [Print (ErrorWhileReading (path_join d ''options''))], Inl e)
                 | Inr localDict \<Rightarrow> (out, Inr localDict)))
         else scan w ds out)
      else scan w ds out)"

text \<open>
  \<^verbatim>\<open>
    for k in localDict.keys():
        if k.startswith("__"):
            del localDict[k]
  \<close>
\<close>

definition strip_dunder :: "(string \<rightharpoonup> pyval) \<Rightarrow> (string \<rightharpoonup> pyval)" where
  "strip_dunder localDict = (\<lambda>k. if prefix ''__'' k then None else localDict k)"

definition loadOptionsFile :: "world \<Rightarrow> event list \<times> (error + (string \<rightharpoonup> pyval))" where
  "loadOptionsFile w =
     (case upward_walk 20 (cwd w) [] of
        Inl e \<Rightarrow> ([], Inl e)
      | Inr searchpath \<Rightarrow>
          (case scan w (searchpath @ [home w]) [] of
             (out, Inl e) \<Rightarrow> (out, Inl e)
           | (out, Inr localDict) \<Rightarrow> (out, Inr (strip_dunder localDict))))"

text \<open>
  The candidates in search order, as the walk builds them when it does not give up: the
  \<open>.buildbot\<close> directory of the working directory and of each of its ancestors, nearest
  first, then the per-user directory.
\<close>

fun ancestors :: "path \<Rightarrow> path list" where
  "ancestors [] = [[]]"
| "ancestors (c # cs) = (c # cs) # ancestors (butlast (c # cs))"

definition candidates :: "world \<Rightarrow> path list" where
  "candidates w = map (\<lambda>here. path_join here ''.buildbot'') (ancestors (cwd w)) @ [home w]"

text \<open>A candidate the loop reads its options file from, rather than passing it over.\<close>

definition yields :: "world \<Rightarrow> path \<Rightarrow> bool" where
  "yields w d \<longleftrightarrow>
     isdir w d \<and> (win32 w \<or> st_uid w d = Some (uid w)) \<and> exists w (path_join d ''options'')"

text \<open>What the loop prints for the candidates it passes over.\<close>

definition skipped :: "world \<Rightarrow> path list \<Rightarrow> event list" where
  "skipped w ds =
     map (\<lambda>d. Print (Skipping d))
       (filter (\<lambda>d. isdir w d \<and> \<not> win32 w \<and> st_uid w d \<noteq> Some (uid w)) ds)"

text \<open>Reading and evaluating one options file.\<close>

definition eval_options :: "world \<Rightarrow> path \<Rightarrow> error + (string \<rightharpoonup> pyval)" where
  "eval_options w optfile =
     (case open_read w optfile of Inl e \<Rightarrow> Inl e | Inr options \<Rightarrow> py_exec w options)"

section \<open>Stopping the buildmaster: \<open>stop\<close>\<close>

text \<open>
  \<^verbatim>\<open>
  def isBuildmasterDir(dir):
      buildbot_tac = os.path.join(dir, "buildbot.tac")
      if not os.path.isfile(buildbot_tac):
          print "no buildbot.tac"
          return False
      with open(buildbot_tac, "r") as f:
          contents = f.read()
      return "Application('buildmaster')" in contents
  \<close>
\<close>

definition buildmaster_marker :: string where
  "buildmaster_marker = ''Application('buildmaster')''"

definition isBuildmasterDir :: "world \<Rightarrow> path \<Rightarrow> event list \<times> bool" where
  "isBuildmasterDir w dir =
     (case files w (path_join dir ''buildbot.tac'') of
        Some (File contents) \<Rightarrow> ([], sublist buildmaster_marker contents)
      | _ \<Rightarrow> ([Print NoBuildbotTac], False))"

text \<open>
  \<^verbatim>\<open>
      try:
          with open("twistd.pid", "rt") as f:
              pid = int(f.read().strip())
      except:
          raise BuildbotNotRunningError
  \<close>
  after \<open>os.chdir(basedir)\<close>; \<open>py_int\<close> is \<open>int\<close> on the stripped text.
\<close>

definition read_pid :: "world \<Rightarrow> path \<Rightarrow> int option" where
  "read_pid w basedir =
     (case open_read w (path_join basedir ''twistd.pid'') of
        Inl e \<Rightarrow> None
      | Inr text \<Rightarrow> py_int w text)"

text \<open>
  The polling loop; \<open>n\<close> counts the calls of \<open>os.kill\<close> made so far.
  \<^verbatim>\<open>
      while timer < 10:
          # poll once per second until twistd.pid goes away, up to 10 seconds
          try:
              os.kill(pid, 0)
          except OSError:
              if not quiet:
                  print "buildbot process %d is dead" % pid
              return
          timer += 1
          time.sleep(1)
      if not quiet:
          print "never saw process go away"
  \<close>
  Sleeps are recorded in milliseconds.
\<close>

function poll :: "world \<Rightarrow> bool \<Rightarrow> int \<Rightarrow> nat \<Rightarrow> int \<Rightarrow> event list \<Rightarrow> event list \<times> (error + unit)" where
  "poll w quiet pid n timer tr =
     (if timer < 10 then
        (case kill_result w n pid 0 of
           Some errno \<Rightarrow>
             (tr @ [Kill pid 0] @ (if quiet then [] else [Print (ProcessDead pid)]), Inr ())
         | None \<Rightarrow> poll w quiet pid (n + 1) (timer + 1) (tr @ [Kill pid 0, Sleep 1000]))
      else (tr @ (if quiet then [] else [Print NeverSawProcessGoAway]), Inr ()))"
  by pat_completeness auto
termination
  by (relation "measure (\<lambda>(w, quiet, pid, n, timer, tr). nat (10 - timer))") auto

declare poll.simps [simp del]

text \<open>
  \<^verbatim>\<open>
      if not wait:
          if not quiet:
              print "sent SIG%s to process" % signame
          return
      time.sleep(0.1)
      while timer < 10: ...
  \<close>
\<close>

definition after_signal :: "world \<Rightarrow> bool \<Rightarrow> string \<Rightarrow> bool \<Rightarrow> int \<Rightarrow> event list \<Rightarrow> event list \<times> (error + unit)" where
  "after_signal w quiet signame wait pid tr =
     (if \<not> wait then (tr @ (if quiet then [] else [Print (SentSignal signame)]), Inr ())
      else poll w quiet pid 1 0 (tr @ [Sleep 100]))"

text \<open>
  \<^verbatim>\<open>
  def stop(config, signame="TERM", wait=False):
      import signal
      basedir = config['basedir']
      quiet = config['quiet']
      if not isBuildmasterDir(config['basedir']):
          print "not a buildmaster directory"
          sys.exit(1)
      os.chdir(basedir)
      ... read the pid ...
      signum = getattr(signal, "SIG" + signame)
      timer = 0
      try:
          os.kill(pid, signum)
      except OSError, e:
          if e.errno != 3:
              raise
      ...
  \<close>
\<close>

definition stop :: "world \<Rightarrow> path \<Rightarrow> bool \<Rightarrow> string \<Rightarrow> bool \<Rightarrow> event list \<times> (error + unit)" where
  "stop w basedir quiet signame wait =
     (case isBuildmasterDir w basedir of
        (out, ok) \<Rightarrow>
          if \<not> ok then (out @ [Print NotABuildmasterDir], Inl (SystemExit 1))
          else
            (case read_pid w basedir of
               None \<Rightarrow> (out @ [Chdir basedir], Inl BuildbotNotRunningError)
             | Some pid \<Rightarrow>
                 (case signal_number w (''SIG'' @ signame) of
                    None \<Rightarrow> (out @ [Chdir basedir], Inl AttributeError)
                  | Some signum \<Rightarrow>
                      (case kill_result w 0 pid signum of
                         None \<Rightarrow>
                           after_signal w quiet signame wait pid
                             (out @ [Chdir basedir, Kill pid signum])
                       | Some errno \<Rightarrow>
                           if errno \<noteq> 3
                           then (out @ [Chdir basedir, Kill pid signum], Inl (OSError errno))
                           else after_signal w quiet signame wait pid
                                  (out @ [Chdir basedir, Kill pid signum])))))"

text \<open>The probes of a polling loop that meets a live process \<open>k\<close> times.\<close>

definition probes :: "int \<Rightarrow> nat \<Rightarrow> event list" where
  "probes pid k = concat (replicate k [Kill pid 0, Sleep 1000])"

text \<open>
  A stop request is ready to be signalled when the directory is a buildmaster's, the pid
  file gives \<open>pid\<close>, the signal exists, and the signal is delivered or meets no process.
\<close>

definition signalled :: "world \<Rightarrow> path \<Rightarrow> string \<Rightarrow> int \<Rightarrow> int \<Rightarrow> bool" where
  "signalled w basedir signame pid signum \<longleftrightarrow>
     isBuildmasterDir w basedir = ([], True)
   \<and> read_pid w basedir = Some pid
   \<and> signal_number w (''SIG'' @ signame) = Some signum
   \<and> (kill_result w 0 pid signum = None \<or> kill_result w 0 pid signum = Some 3)"

section \<open>Delivering a job to the spool: \<open>doTryServer\<close>\<close>

text \<open>
  Opening a file for writing creates it empty or truncates it; it fails when the
  directory is missing or the path is a directory.
\<close>

definition open_write :: "(path \<rightharpoonup> node) \<Rightarrow> path \<Rightarrow> error + (path \<rightharpoonup> node)" where
  "open_write fs p =
     (case fs (dirname p) of
        Some (Dir owner) \<Rightarrow>
          (case fs p of
             Some (Dir owner') \<Rightarrow> Inl (IOError p)
           | _ \<Rightarrow> Inr (fs(p \<mapsto> File [])))
      | _ \<Rightarrow> Inl (IOError p))"

text \<open>
  \<open>os.rename\<close> of a regular file: the source must exist, the target directory too, and
  the target must not be a directory; an existing target file is replaced.
\<close>

definition rename :: "(path \<rightharpoonup> node) \<Rightarrow> path \<Rightarrow> path \<Rightarrow> error + (path \<rightharpoonup> node)" where
  "rename fs src dst =
     (case fs src of
        None \<Rightarrow> Inl (OSError 2)
      | Some n \<Rightarrow>
          (case fs (dirname dst) of
             Some (Dir owner) \<Rightarrow>
               (case fs dst of
                  Some (Dir owner') \<Rightarrow> Inl (OSError 21)
                | _ \<Rightarrow> Inr ((fs(dst \<mapsto> n))(src := None)))
           | _ \<Rightarrow> Inl (OSError 2)))"

text \<open>
  \<^verbatim>\<open>
  def doTryServer(config):
      ...
      jobdir = os.path.expanduser(config["jobdir"])
      job = sys.stdin.read()
      timestring = "%d" % time.time()
      m = md5()
      m.update(job)
      jobhash = m.hexdigest()
      fn = "%s-%s" % (timestring, jobhash)
      tmpfile = os.path.join(jobdir, "tmp", fn)
      newfile = os.path.join(jobdir, "new", fn)
      with open(tmpfile, "w") as f:
          f.write(job)
      os.rename(tmpfile, newfile)
  \<close>
  \<open>jobdir\<close> is the expanded \<open>config["jobdir"]\<close>, \<open>None\<close> when the option was not
  given. The result is the file operations attempted, the directory tree afterwards, and
  the outcome.
\<close>

definition doTryServer :: "world \<Rightarrow> path option \<Rightarrow> string \<Rightarrow> event list \<times> (path \<rightharpoonup> node) \<times> (error + unit)" where
  "doTryServer w jobdir job =
     (case jobdir of
        None \<Rightarrow> ([], files w, Inl AttributeError)
      | Some jd \<Rightarrow>
          (let timestring = fmt_d (now w);
               jobhash = md5_hexdigest w job;
               fn = timestring @ ''-'' @ jobhash;
               tmpfile = path_join (path_join jd ''tmp'') fn;
               newfile = path_join (path_join jd ''new'') fn
           in case open_write (files w) tmpfile of
                Inl e \<Rightarrow> ([OpenWrite tmpfile], files w, Inl e)
              | Inr fs1 \<Rightarrow>
                  (let fs2 = fs1(tmpfile \<mapsto> File job)
                   in case rename fs2 tmpfile newfile of
                        Inl e \<Rightarrow>
                          ([OpenWrite tmpfile, Write tmpfile job, Close tmpfile,
                            Rename tmpfile newfile], fs2, Inl e)
                      | Inr fs3 \<Rightarrow>
                          ([OpenWrite tmpfile, Write tmpfile job, Close tmpfile,
                            Rename tmpfile newfile], fs3, Inr ()))))"

section \<open>Option classes: \<open>OptionsWithOptionsFile\<close>\<close>

subsection \<open>Lists as objects\<close>

text \<open>
  \<open>optParameters\<close> is a list of lists that the constructor copies and then updates in
  place, so lists are objects in a store and are named by their addresses. An object is
  either a list of references to lists (an \<open>optParameters\<close> value) or a list of immutable
  values (one parameter: long name, short name, default, description, ...). A fresh
  object gets the next address.
\<close>

type_synonym addr = nat

datatype obj = ListOfRefs "addr list" | ListOfVals "pyval list"

type_synonym store = "obj list"

definition load_list :: "store \<Rightarrow> addr \<Rightarrow> addr list option" where
  "load_list s a =
     (if a < length s then (case s ! a of ListOfRefs rs \<Rightarrow> Some rs | ListOfVals vs \<Rightarrow> None)
      else None)"

definition load_entry :: "store \<Rightarrow> addr \<Rightarrow> pyval list option" where
  "load_entry s a =
     (if a < length s then (case s ! a of ListOfVals vs \<Rightarrow> Some vs | ListOfRefs rs \<Rightarrow> None)
      else None)"

definition alloc :: "store \<Rightarrow> obj \<Rightarrow> addr \<times> store" where
  "alloc s ob = (length s, s @ [ob])"

text \<open>
  \<open>copy.deepcopy\<close> of a list of lists of immutable values: a new list for every
  parameter and a new list of them.
\<close>

fun copy_entries :: "store \<Rightarrow> addr list \<Rightarrow> error + (addr list \<times> store)" where
  "copy_entries s [] = Inr ([], s)"
| "copy_entries s (r # rs) =
     (case load_entry s r of
        None \<Rightarrow> Inl NoSuchObject
      | Some vs \<Rightarrow>
          (case copy_entries (snd (alloc s (ListOfVals vs))) rs of
             Inl e \<Rightarrow> Inl e
           | Inr (rs', s') \<Rightarrow> Inr (fst (alloc s (ListOfVals vs)) # rs', s')))"

definition deepcopy :: "store \<Rightarrow> addr \<Rightarrow> error + (addr \<times> store)" where
  "deepcopy s a =
     (case load_list s a of
        None \<Rightarrow> Inl NoSuchObject
      | Some rs \<Rightarrow>
          (case copy_entries s rs of
             Inl e \<Rightarrow> Inl e
           | Inr (rs', s') \<Rightarrow> Inr (alloc s' (ListOfRefs rs'))))"

subsection \<open>The class and the library's part\<close>

text \<open>
  The two class attributes the constructor looks at: \<open>optParameters\<close>, if the class has
  one, and \<open>buildbotOptions\<close>, \<open>None\<close> or a list of pairs of an options-file name and
  an option name.
\<close>

record pyclass =
  optParameters :: "addr option"
  buildbotOptions :: "(string \<times> string) list option"

text \<open>
  All the parameters of a class, read through the store.
\<close>

definition entries_of :: "store \<Rightarrow> addr \<Rightarrow> pyval list list option" where
  "entries_of s a =
     (case load_list s a of
        None \<Rightarrow> None
      | Some rs \<Rightarrow> those (map (load_entry s) rs))"

text \<open>
  The library's \<open>usage.Options\<close>, as far as options with parameters go. Its constructor
  gives every parameter of \<open>optParameters\<close> its default, a later parameter of the same
  name overriding an earlier one; a parameter list shorter than three has the default
  \<open>None\<close>, and a parameter without a name is refused. \<open>parseOptions\<close> then stores each
  value given on the command line, and refuses an option that is not a parameter.
\<close>

definition default_of :: "pyval list \<Rightarrow> pyval" where
  "default_of p = (if length p < 3 then PyNone else p ! 2)"

fun defaults_of :: "pyval list list \<Rightarrow> (string \<rightharpoonup> pyval) \<Rightarrow> error + (string \<rightharpoonup> pyval)" where
  "defaults_of [] opts = Inr opts"
| "defaults_of ((PyStr long # rest) # ps) opts =
     (if long = [] then Inl (ValueError ''A parameter cannot be without a name.'')
      else defaults_of ps
             (opts(long \<mapsto> default_of (PyStr long # rest))))"
| "defaults_of (p # ps) opts = Inl (ValueError ''A parameter cannot be without a name.'')"

definition Options_init :: "store \<Rightarrow> pyclass \<Rightarrow> error + (string \<rightharpoonup> pyval)" where
  "Options_init s cls =
     (case optParameters cls of
        None \<Rightarrow> Inr Map.empty
      | Some a \<Rightarrow>
          (case entries_of s a of
             None \<Rightarrow> Inl NoSuchObject
           | Some ps \<Rightarrow> defaults_of ps Map.empty))"

fun parseOptions :: "(string \<times> string) list \<Rightarrow> (string \<rightharpoonup> pyval) \<Rightarrow> error + (string \<rightharpoonup> pyval)" where
  "parseOptions [] opts = Inr opts"
| "parseOptions ((name, v) # argv) opts =
     (if opts name = None then Inl (UsageError name)
      else parseOptions argv (opts(name \<mapsto> PyStr v)))"

subsection \<open>The constructor\<close>

text \<open>
  The inner loop, for one pair of \<open>buildbotOptions\<close> and the indices still to visit:
  \<^verbatim>\<open>
      for i in range(len(op)):
          if (op[i][0] == option_name
              and optfile_name in optfile):
              op[i] = list(op[i])
              op[i][2] = optfile[optfile_name]
  \<close>
  \<open>op[i][0]\<close> raises on an empty parameter and \<open>op[i][2] = ...\<close> on one
  shorter than three.
\<close>

fun patch_entries :: "string \<Rightarrow> string \<Rightarrow> (string \<rightharpoonup> pyval) \<Rightarrow> addr \<Rightarrow> nat list \<Rightarrow> store \<Rightarrow> error + store" where
  "patch_entries optfile_name option_name optfile op [] s = Inr s"
| "patch_entries optfile_name option_name optfile op (i # is) s =
     (case load_list s op of
        None \<Rightarrow> Inl NoSuchObject
      | Some rs \<Rightarrow>
          if length rs \<le> i then Inl IndexError
          else
            (case load_entry s (rs ! i) of
               None \<Rightarrow> Inl NoSuchObject
             | Some vs \<Rightarrow>
                 if vs = [] then Inl IndexError
                 else
                   (case (if hd vs = PyStr option_name then optfile optfile_name else None) of
                      None \<Rightarrow> patch_entries optfile_name option_name optfile op is s
                    | Some v \<Rightarrow>
                        if length vs < 3 then Inl IndexError
                        else patch_entries optfile_name option_name optfile op is
                               ((snd (alloc s (ListOfVals vs)))
                                  [op := ListOfRefs (rs[i := fst (alloc s (ListOfVals vs))]),
                                   fst (alloc s (ListOfVals vs)) := ListOfVals (vs[2 := v])]))))"

text \<open>
  The outer loop:
  \<^verbatim>\<open>
      for optfile_name, option_name in self.buildbotOptions:
          for i in range(len(op)): ...
  \<close>
\<close>

fun patch_all :: "(string \<times> string) list \<Rightarrow> (string \<rightharpoonup> pyval) \<Rightarrow> addr \<Rightarrow> store \<Rightarrow> error + store" where
  "patch_all [] optfile op s = Inr s"
| "patch_all ((optfile_name, option_name) # pairs) optfile op s =
     (case load_list s op of
        None \<Rightarrow> Inl NoSuchObject
      | Some rs \<Rightarrow>
          (case patch_entries optfile_name option_name optfile op [0..<length rs] s of
             Inl e \<Rightarrow> Inl e
           | Inr s' \<Rightarrow> patch_all pairs optfile op s'))"

text \<open>
  \<^verbatim>\<open>
      if self.buildbotOptions:
          optfile = loadOptionsFile()
          for optfile_name, option_name in self.buildbotOptions: ...
  \<close>
\<close>

definition apply_options_file :: "world \<Rightarrow> pyclass \<Rightarrow> addr \<Rightarrow> store \<Rightarrow> event list \<times> (error + store)" where
  "apply_options_file w cls op s =
     (case buildbotOptions cls of
        None \<Rightarrow> ([], Inr s)
      | Some pairs \<Rightarrow>
          if pairs = [] then ([], Inr s)
          else
            (case loadOptionsFile w of
               (out, Inl e) \<Rightarrow> (out, Inl e)
             | (out, Inr optfile) \<Rightarrow> (out, patch_all pairs optfile op s)))"

text \<open>
  \<^verbatim>\<open>
    def __init__(self, *args):
        cls = self.__class__
        if hasattr(cls, 'optParameters'):
            old_optParameters = cls.optParameters
            cls.optParameters = op = copy.deepcopy(cls.optParameters)
            if self.buildbotOptions:
                ...
        usage.Options.__init__(self, *args)
        if hasattr(cls, 'optParameters'):
            cls.optParameters = old_optParameters
  \<close>
  The result is what was printed, the store and the class as the call leaves them, and
  the exception raised or the option values of the new instance.
\<close>

definition OptionsWithOptionsFile_init :: "world \<Rightarrow> store \<Rightarrow> pyclass \<Rightarrow> event list \<times> store \<times> pyclass \<times> (error + (string \<rightharpoonup> pyval))" where
  "OptionsWithOptionsFile_init w s cls =
     (case optParameters cls of
        None \<Rightarrow> ([], s, cls, Options_init s cls)
      | Some old_optParameters \<Rightarrow>
          (case deepcopy s old_optParameters of
             Inl e \<Rightarrow> ([], s, cls, Inl e)
           | Inr (op, s1) \<Rightarrow>
               (case apply_options_file w cls op s1 of
                  (out, Inl e) \<Rightarrow> (out, s1, cls \<lparr> optParameters := Some op \<rparr>, Inl e)
                | (out, Inr s2) \<Rightarrow>
                    (case Options_init s2 (cls \<lparr> optParameters := Some op \<rparr>) of
                       Inl e \<Rightarrow> (out, s2, cls \<lparr> optParameters := Some op \<rparr>, Inl e)
                     | Inr opts \<Rightarrow>
                         (out, s2, cls \<lparr> optParameters := Some old_optParameters \<rparr>, Inr opts)))))"

subsection \<open>The three tiers\<close>

text \<open>
  The value the options file resolves for an option: that of the last pair of
  \<open>buildbotOptions\<close> that names the option and whose options-file name the file defines.
\<close>

fun resolved :: "(string \<times> string) list \<Rightarrow> (string \<rightharpoonup> pyval) \<Rightarrow> string \<Rightarrow> pyval option" where
  "resolved [] optfile name = None"
| "resolved ((optfile_name, option_name) # pairs) optfile name =
     (case resolved pairs optfile name of
        Some r \<Rightarrow> Some r
      | None \<Rightarrow> if option_name = name then optfile optfile_name else None)"

text \<open>The value given on the command line, the last one if the option is repeated.\<close>

definition explicit :: "(string \<times> string) list \<Rightarrow> string \<Rightarrow> pyval option" where
  "explicit argv name = map_option PyStr (map_of (rev argv) name)"

text \<open>The options file as the constructor sees it: none unless \<open>buildbotOptions\<close> asks for it.\<close>

definition options_file_of :: "world \<Rightarrow> pyclass \<Rightarrow> (string \<times> string) list \<times> (string \<rightharpoonup> pyval)" where
  "options_file_of w cls =
     (case buildbotOptions cls of
        None \<Rightarrow> ([], Map.empty)
      | Some pairs \<Rightarrow>
          (case snd (loadOptionsFile w) of
             Inl e \<Rightarrow> (pairs, Map.empty)
           | Inr optfile \<Rightarrow> (pairs, optfile)))"

text \<open>Construction followed by parsing the command line.\<close>

definition construct_and_parse :: "world \<Rightarrow> store \<Rightarrow> pyclass \<Rightarrow> (string \<times> string) list \<Rightarrow> error + (string \<rightharpoonup> pyval)" where
  "construct_and_parse w s cls argv =
     (case snd (snd (snd (OptionsWithOptionsFile_init w s cls))) of
        Inl e \<Rightarrow> Inl e
      | Inr opts \<Rightarrow> parseOptions argv opts)"

subsection \<open>The loops, on the values of the parameters\<close>

text \<open>
  What one pair of \<open>buildbotOptions\<close> does to one parameter when nothing raises, and
  the condition under which nothing raises.
\<close>

definition patch1 :: "string \<Rightarrow> string \<Rightarrow> (string \<rightharpoonup> pyval) \<Rightarrow> pyval list \<Rightarrow> pyval list" where
  "patch1 optfile_name option_name optfile vs =
     (case (if hd vs = PyStr option_name then optfile optfile_name else None) of
        None \<Rightarrow> vs
      | Some v \<Rightarrow> vs[2 := v])"

definition patchable :: "string \<Rightarrow> string \<Rightarrow> (string \<rightharpoonup> pyval) \<Rightarrow> pyval list \<Rightarrow> bool" where
  "patchable optfile_name option_name optfile vs \<longleftrightarrow>
     vs \<noteq> [] \<and> (hd vs = PyStr option_name \<and> optfile optfile_name \<noteq> None \<longrightarrow> 3 \<le> length vs)"

text \<open>The same for all the pairs, in order.\<close>

fun patched :: "(string \<times> string) list \<Rightarrow> (string \<rightharpoonup> pyval) \<Rightarrow> pyval list \<Rightarrow> pyval list" where
  "patched [] optfile vs = vs"
| "patched ((optfile_name, option_name) # pairs) optfile vs =
     patched pairs optfile (patch1 optfile_name option_name optfile vs)"

fun all_patchable :: "(string \<times> string) list \<Rightarrow> (string \<rightharpoonup> pyval) \<Rightarrow> pyval list \<Rightarrow> bool" where
  "all_patchable [] optfile vs = True"
| "all_patchable ((optfile_name, option_name) # pairs) optfile vs =
     (patchable optfile_name option_name optfile vs
      \<and> all_patchable pairs optfile (patch1 optfile_name option_name optfile vs))"

section \<open>Concrete worlds\<close>

text \<open>
  A user with uid 1000 working in \<open>/home/u/proj\<close>. The project's \<open>.buildbot\<close>
  directory belongs to root and has an options file; the user's own \<open>~/.buildbot\<close>
  has one too. The interpreter rejects the text \<open>bad\<close> and otherwise finds one option
  defined, next to a name of its own.
\<close>

definition example_files :: "path \<rightharpoonup> node" where
  "example_files =
     [[''home'', ''u'', ''proj'', ''.buildbot''] \<mapsto> Dir 0,
      [''home'', ''u'', ''proj'', ''.buildbot'', ''options''] \<mapsto> File ''master = 1'',
      [''home'', ''u'', ''.buildbot''] \<mapsto> Dir 1000,
      [''home'', ''u'', ''.buildbot'', ''options''] \<mapsto> File ''master = 2'']"

definition example_namespace :: "string \<rightharpoonup> pyval" where
  "example_namespace = [''__builtins__'' \<mapsto> PyNone, ''master'' \<mapsto> PyStr ''localhost:9989'']"

definition example_exec :: "string \<Rightarrow> error + (string \<rightharpoonup> pyval)" where
  "example_exec options =
     (if options = ''bad'' then Inl (PyExecError ''SyntaxError'') else Inr example_namespace)"

definition example_world :: world where
  "example_world = \<lparr> files = example_files, cwd = [''home'', ''u'', ''proj''],
     home = [''home'', ''u'', ''.buildbot''], win32 = False, uid = 1000,
     py_exec = example_exec, py_int = (\<lambda>text. if text = ''4242'' then Some 4242 else None),
     signal_number = (\<lambda>name. if name = ''SIGTERM'' then Some 15 else None),
     kill_result = (\<lambda>n pid sig. if n = 3 then Some 3 else None),
     now = 1300000000, md5_hexdigest = (\<lambda>job. ''d41d8cd9'') \<rparr>"

text \<open>The same user with a broken options file, and in a directory twenty levels deep.\<close>

definition broken_world :: world where
  "broken_world = example_world \<lparr> files :=
     example_files([''home'', ''u'', ''.buildbot'', ''options''] \<mapsto> File ''bad'') \<rparr>"

definition deep_world :: world where
  "deep_world = example_world \<lparr> cwd := replicate 20 ''d'' \<rparr>"

text \<open>
  A world where no candidate yields an options file: the project's directory is root's,
  the user's own has no options file, and the other candidates do not exist.
\<close>

definition fruitless_world :: world where
  "fruitless_world = example_world \<lparr> files :=
     [[''home'', ''u'', ''proj'', ''.buildbot''] \<mapsto> Dir 0,
      [''home'', ''u'', ''proj'', ''.buildbot'', ''options''] \<mapsto> File ''master = 1'',
      [''home'', ''u'', ''.buildbot''] \<mapsto> Dir 1000] \<rparr>"

text \<open>
  A buildmaster installed in \<open>/srv/master\<close> and running as process 4242. In
  \<open>master_world\<close> the process takes the signal and is gone at the third probe; in
  \<open>stubborn_world\<close> it never goes away.
\<close>

definition example_tac :: string where
  "example_tac = ''application = service.'' @ buildmaster_marker"

definition master_files :: "path \<rightharpoonup> node" where
  "master_files =
     [[''srv'', ''master''] \<mapsto> Dir 1000,
      [''srv'', ''master'', ''buildbot.tac''] \<mapsto> File example_tac,
      [''srv'', ''master'', ''twistd.pid''] \<mapsto> File ''4242'',
      [''srv'', ''jobdir''] \<mapsto> Dir 1000,
      [''srv'', ''jobdir'', ''tmp''] \<mapsto> Dir 1000,
      [''srv'', ''jobdir'', ''new''] \<mapsto> Dir 1000]"

definition master_world :: world where
  "master_world = example_world \<lparr> files := master_files \<rparr>"

definition stubborn_world :: world where
  "stubborn_world = master_world \<lparr> kill_result := (\<lambda>n pid sig. None) \<rparr>"

section \<open>Decimal rendering is injective and free of separators\<close>

lemma digit_val_digit: "d < 10 \<Longrightarrow> digit_val (digit d) = d"
  by (simp add: digit_val_def digit_def)

lemma read_nat_snoc: "read_nat (s @ [c]) = 10 * read_nat s + digit_val c"
  by (simp add: read_nat_def)

lemma read_nat_fmt_nat: "read_nat (fmt_nat n) = n"
proof (induction n rule: fmt_nat.induct)
  case (1 n)
  show ?case
  proof (cases "n < 10")
    case True
    then show ?thesis
      by (subst fmt_nat.simps) (simp add: read_nat_def digit_val_digit)
  next
    case False
    with 1 have "read_nat (fmt_nat (n div 10)) = n div 10" by simp
    with False show ?thesis
      by (subst fmt_nat.simps) (simp add: read_nat_snoc digit_val_digit)
  qed
qed

lemma fmt_nat_inj: "fmt_nat a = fmt_nat b \<Longrightarrow> a = b"
  by (metis read_nat_fmt_nat)

lemma digit_not_colon: "d < 10 \<Longrightarrow> digit d \<noteq> CHR '':''"
proof
  assume d: "d < 10" and eq: "digit d = CHR '':''"
  from eq have "of_char (digit d) = (of_char CHR '':'' :: nat)" by simp
  with d show False by (simp add: digit_def)
qed

lemma fmt_nat_no_colon: "CHR '':'' \<notin> set (fmt_nat n)"
proof (induction n rule: fmt_nat.induct)
  case (1 n)
  show ?case
  proof (cases "n < 10")
    case True
    then show ?thesis
      using digit_not_colon [of n] by (subst fmt_nat.simps) auto
  next
    case False
    with 1 have "CHR '':'' \<notin> set (fmt_nat (n div 10))" by simp
    moreover have "digit (n mod 10) \<noteq> CHR '':''" by (rule digit_not_colon) simp
    ultimately show ?thesis using False
      by (subst fmt_nat.simps) auto
  qed
qed

lemma fmt_d_length: "fmt_d (int n) = fmt_nat n"
  by (simp add: fmt_d_def)

lemma split_at_first:
  assumes "xs @ c # ys = xs' @ c # ys'" and "c \<notin> set xs" and "c \<notin> set xs'"
  shows "xs = xs' \<and> ys = ys'"
proof -
  have "takeWhile (\<lambda>x. x \<noteq> c) (xs @ c # ys) = xs"
    using assms(2) by (subst takeWhile_append2) auto
  moreover have "takeWhile (\<lambda>x. x \<noteq> c) (xs' @ c # ys') = xs'"
    using assms(3) by (subst takeWhile_append2) auto
  ultimately have "xs = xs'" using assms(1) by simp
  with assms(1) show ?thesis by simp
qed

lemma makeNetstring_Nil: "makeNetstring [] = []"
  by (simp add: makeNetstring_def)

lemma makeNetstring_Cons:
  "makeNetstring (s # ss) = fmt_nat (length s) @ CHR '':'' # s @ CHR '','' # makeNetstring ss"
  by (simp add: makeNetstring_def fmt_d_length)

lemma makeNetstring_append: "makeNetstring (xs @ ys) = makeNetstring xs @ makeNetstring ys"
  by (simp add: makeNetstring_def)

lemma netstring_head_inj:
  assumes "fmt_nat (length s) @ CHR '':'' # s @ CHR '','' # r
         = fmt_nat (length t) @ CHR '':'' # t @ CHR '','' # r'"
  shows "s = t \<and> r = r'"
proof -
  from split_at_first [OF assms fmt_nat_no_colon fmt_nat_no_colon]
  have n: "fmt_nat (length s) = fmt_nat (length t)" and rest: "s @ CHR '','' # r = t @ CHR '','' # r'"
    by simp_all
  from n have "length s = length t" by (rule fmt_nat_inj)
  with rest show ?thesis by simp
qed

lemma makeNetstring_Cons_neq_Nil: "makeNetstring (s # ss) \<noteq> []"
  by (simp only: makeNetstring_Cons) simp

lemma makeNetstring_inj: "makeNetstring xs = makeNetstring ys \<Longrightarrow> xs = ys"
proof (induction xs arbitrary: ys)
  case Nil
  show ?case
  proof (cases ys)
    case (Cons y ys')
    with Nil have "makeNetstring (y # ys') = []" by (simp only: makeNetstring_Nil)
    then show ?thesis using makeNetstring_Cons_neq_Nil by blast
  qed simp
next
  case (Cons x xs)
  show ?case
  proof (cases ys)
    case Nil
    with Cons.prems have "makeNetstring (x # xs) = []" by (simp only: makeNetstring_Nil)
    then show ?thesis using makeNetstring_Cons_neq_Nil by blast
  next
    case (Cons y ys')
    with Cons.prems have "x = y \<and> makeNetstring xs = makeNetstring ys'"
      by (simp only: makeNetstring_Cons) (rule netstring_head_inj)
    with Cons.IH Cons show ?thesis by simp
  qed
qed

lemma append_fields_eq: "append_fields job fs = job @ makeNetstring fs"
  by (induction fs arbitrary: job) (simp_all add: makeNetstring_Nil makeNetstring_Cons ns_def fmt_d_length)

lemma fmt_nat_digit: "n < 10 \<Longrightarrow> fmt_nat n = [digit n]"
  by (subst fmt_nat.simps) simp

lemma fmt_d_tags: "fmt_d 2 = ''2''" "fmt_d 3 = ''3''" "fmt_d 4 = ''4''" "fmt_d 5 = ''5''"
  by code_simp+

lemma fmt_d_small:
  "fmt_d 0 = ''0''" "fmt_d 1 = ''1''" "fmt_d 6 = ''6''" "fmt_d 7 = ''7''" "fmt_d 8 = ''8''"
  "fmt_d 9 = ''9''"
  by code_simp+

lemma makeNetstring_simps:
  "makeNetstring [] = []"
  "makeNetstring (s # ss) = fmt_d (int (length s)) @ CHR '':'' # s @ CHR '','' # makeNetstring ss"
  by (simp_all add: makeNetstring_def)

lemma createJobfile_makeNetstring:
  "valid_request r \<Longrightarrow> createJobfile dumps r = Inr (makeNetstring (wire_fields dumps r))"
  by (simp add: createJobfile_def append_fields_eq)

lemma wire_fields_head:
  "\<exists>rest. wire_fields dumps r = fmt_d (int (select_version r)) # rest"
  by (simp add: wire_fields_def Let_def)

text \<open>
  C1. The version depends only on which of \<open>who\<close>, \<open>comment\<close> and \<open>properties\<close>
  are populated; it is 2, 3, 4 and 5 in the four cases of the contract, it is the lowest
  version from 2 on whose field list can express the populated fields, and it is the tag
  the encoder writes first.
\<close>

theorem select_version_lowest_expressible:
  "(who r = [] \<and> comment r = [] \<and> properties r = [] \<longrightarrow> select_version r = 2)
 \<and> (who r \<noteq> [] \<and> comment r = [] \<and> properties r = [] \<longrightarrow> select_version r = 3)
 \<and> (who r \<noteq> [] \<and> comment r \<noteq> [] \<and> properties r = [] \<longrightarrow> select_version r = 4)
 \<and> (properties r \<noteq> [] \<longrightarrow> select_version r = 5)
 \<and> can_express (select_version r) r
 \<and> (\<forall>v. 2 \<le> v \<and> can_express v r \<longrightarrow> select_version r \<le> v)
 \<and> (\<forall>r'. (who r' = []) = (who r = []) \<and> (comment r' = []) = (comment r = [])
         \<and> (properties r' = []) = (properties r = []) \<longrightarrow> select_version r' = select_version r)
 \<and> (valid_request r \<longrightarrow>
       (\<exists>rest. createJobfile dumps r = Inr (ns (fmt_d (int (select_version r))) @ rest)))"
proof -
  have cases: "(who r = [] \<and> comment r = [] \<and> properties r = [] \<longrightarrow> select_version r = 2)
     \<and> (who r \<noteq> [] \<and> comment r = [] \<and> properties r = [] \<longrightarrow> select_version r = 3)
     \<and> (who r \<noteq> [] \<and> comment r \<noteq> [] \<and> properties r = [] \<longrightarrow> select_version r = 4)
     \<and> (properties r \<noteq> [] \<longrightarrow> select_version r = 5)"
    by (simp add: select_version_def)
  have expr: "can_express (select_version r) r"
    by (simp add: select_version_def can_express_def)
  have least: "\<forall>v. 2 \<le> v \<and> can_express v r \<longrightarrow> select_version r \<le> v"
    by (auto simp: select_version_def can_express_def)
  have shape: "\<forall>r'. (who r' = []) = (who r = []) \<and> (comment r' = []) = (comment r = [])
         \<and> (properties r' = []) = (properties r = []) \<longrightarrow> select_version r' = select_version r"
    by (simp add: select_version_def)
  have tag: "valid_request r \<longrightarrow>
       (\<exists>rest. createJobfile dumps r = Inr (ns (fmt_d (int (select_version r))) @ rest))"
  proof
    assume v: "valid_request r"
    obtain rest where "wire_fields dumps r = fmt_d (int (select_version r)) # rest"
      using wire_fields_head by blast
    with v have "createJobfile dumps r
        = Inr (ns (fmt_d (int (select_version r))) @ makeNetstring rest)"
      by (simp add: createJobfile_def append_fields_eq makeNetstring_Cons ns_def fmt_d_length)
    then show "\<exists>rest. createJobfile dumps r = Inr (ns (fmt_d (int (select_version r))) @ rest)"
      by blast
  qed
  from cases expr least shape tag show ?thesis by blast
qed

theorem select_version_lowest_expressible_witness:
  "select_version test_request = 2 \<and> select_version test_request_v3 = 3
 \<and> select_version test_request_v4 = 4 \<and> select_version test_request_v5 = 5
 \<and> can_express 5 test_request_v5 \<and> \<not> can_express 4 test_request_v5
 \<and> valid_request test_request_v4
 \<and> (\<exists>rest. createJobfile test_dumps test_request_v4 = Inr (''1:4,'' @ rest))"
proof -
  note T2 = select_version_lowest_expressible [of test_request test_dumps]
  note T3 = select_version_lowest_expressible [of test_request_v3 test_dumps]
  note T4 = select_version_lowest_expressible [of test_request_v4 test_dumps]
  note T5 = select_version_lowest_expressible [of test_request_v5 test_dumps]
  have v: "valid_request test_request_v4"
    by (simp add: valid_request_def test_request_v4_def test_request_v3_def test_request_def)
  have f2: "who test_request = [] \<and> comment test_request = [] \<and> properties test_request = []"
    by (simp add: test_request_def)
  have s2: "select_version test_request = 2"
    using T2 [THEN conjunct1] f2 by (rule mp)
  have f3: "who test_request_v3 \<noteq> [] \<and> comment test_request_v3 = []
      \<and> properties test_request_v3 = []"
    by (simp add: test_request_v3_def test_request_def)
  have s3: "select_version test_request_v3 = 3"
    using T3 [THEN conjunct2, THEN conjunct1] f3 by (rule mp)
  have f4: "who test_request_v4 \<noteq> [] \<and> comment test_request_v4 \<noteq> []
      \<and> properties test_request_v4 = []"
    by (simp add: test_request_v4_def test_request_v3_def test_request_def)
  have s4: "select_version test_request_v4 = 4"
    using T4 [THEN conjunct2, THEN conjunct2, THEN conjunct1] f4 by (rule mp)
  have f5: "properties test_request_v5 \<noteq> []"
    by (simp add: test_request_v5_def)
  have s5: "select_version test_request_v5 = 5"
    using T5 [THEN conjunct2, THEN conjunct2, THEN conjunct2, THEN conjunct1] f5 by (rule mp)
  have "can_express (select_version test_request_v5) test_request_v5"
    by (rule T5 [THEN conjunct2, THEN conjunct2, THEN conjunct2, THEN conjunct2, THEN conjunct1])
  then have e5: "can_express 5 test_request_v5"
    by (simp only: s5)
  have "2 \<le> (4::nat) \<and> can_express 4 test_request_v5 \<longrightarrow> select_version test_request_v5 \<le> 4"
    by (rule T5 [THEN conjunct2, THEN conjunct2, THEN conjunct2, THEN conjunct2, THEN conjunct2,
          THEN conjunct1, THEN spec])
  then have n4: "\<not> can_express 4 test_request_v5"
    by (simp add: s5)
  have a: "ns (fmt_d 4) = ''1:4,''"
    by (simp add: ns_def fmt_d_tags fmt_d_small)
  have "\<exists>rest. createJobfile test_dumps test_request_v4
      = Inr (ns (fmt_d (int (select_version test_request_v4))) @ rest)"
    using T4 [THEN conjunct2, THEN conjunct2, THEN conjunct2, THEN conjunct2, THEN conjunct2,
          THEN conjunct2, THEN conjunct2] v by (rule mp)
  then have "\<exists>rest. createJobfile test_dumps test_request_v4 = Inr (''1:4,'' @ rest)"
    by (simp add: s4 a)
  with v s2 s3 s4 s5 e5 n4 show ?thesis by blast
qed

text \<open>
  C2, as stated, fails: the request of \<open>test_createJobfile_v2_one_builder\<close> has one
  builder and its message, the one the test expects, has nine fields, not 7 + 1.
\<close>

theorem v2_field_count_counterexample:
  "createJobfile test_dumps test_request = Inr test_v2_one_builder_jobstr
 \<and> test_v2_one_builder_jobstr = makeNetstring (wire_fields test_dumps test_request)
 \<and> length (wire_fields test_dumps test_request) \<noteq> 7 + length (builderNames test_request)"
  by (simp add: createJobfile_def test_request_def test_v2_one_builder_jobstr_def valid_request_def
     wire_fields_def select_version_def append_fields_eq fmt_d_tags)

text \<open>
  C2, amended. A valid request with empty \<open>who\<close>, \<open>comment\<close> and \<open>properties\<close> and
  N builder names (N is at least 1) is encoded as version 2, and its message consists of
  exactly 8 + N length-prefixed fields: the version tag, buildSetId, branch, baseRevision,
  the decimal patchLevel, diff, repository, project, then the builder names in order. No
  other field list has the same message.
\<close>

theorem v2_layout:
  assumes "valid_request r" and "who r = []" and "comment r = []" and "properties r = []"
  shows "select_version r = 2
   \<and> createJobfile dumps r = Inr (makeNetstring
        ([''2'', buildSetId r, branch r, baseRevision r, fmt_d (patchLevel r), diff r,
          repository r, project r] @ builderNames r))
   \<and> (\<forall>fs. createJobfile dumps r = Inr (makeNetstring fs) \<longrightarrow>
         length fs = 8 + length (builderNames r)
       \<and> fs = [''2'', buildSetId r, branch r, baseRevision r, fmt_d (patchLevel r), diff r,
          repository r, project r] @ builderNames r)
   \<and> 1 \<le> length (builderNames r)"
proof -
  let ?fs = "[''2'', buildSetId r, branch r, baseRevision r, fmt_d (patchLevel r), diff r,
          repository r, project r] @ builderNames r"
  from assms have v: "select_version r = 2" by (simp add: select_version_def)
  then have wf: "wire_fields dumps r = ?fs" by (simp add: wire_fields_def fmt_d_tags)
  from assms(1) have "createJobfile dumps r = Inr (makeNetstring (wire_fields dumps r))"
    by (rule createJobfile_makeNetstring)
  with wf have enc: "createJobfile dumps r = Inr (makeNetstring ?fs)"
    by simp
  have uniq: "\<forall>fs. createJobfile dumps r = Inr (makeNetstring fs) \<longrightarrow>
         length fs = 8 + length (builderNames r) \<and> fs = ?fs"
  proof (intro allI impI)
    fix fs assume "createJobfile dumps r = Inr (makeNetstring fs)"
    with enc have "makeNetstring fs = makeNetstring ?fs" by simp
    then have "fs = ?fs" by (rule makeNetstring_inj)
    then show "length fs = 8 + length (builderNames r) \<and> fs = ?fs" by simp
  qed
  from assms(1) have "1 \<le> length (builderNames r)"
    by (cases "builderNames r") (simp_all add: valid_request_def)
  with v enc uniq show ?thesis by blast
qed

theorem v2_layout_witness:
  "valid_request test_request \<and> who test_request = [] \<and> comment test_request = []
 \<and> properties test_request = []
 \<and> createJobfile test_dumps test_request = Inr (makeNetstring [''2'', ''123-456'', ''branch'',
      ''baserev'', ''0'', ''diff...'', ''repo'', ''proj'', ''runtests''])"
proof -
  have h: "valid_request test_request" "who test_request = []" "comment test_request = []"
    "properties test_request = []"
    by (simp_all add: valid_request_def test_request_def)
  have z: "fmt_d (patchLevel test_request) = ''0''"
    by (simp add: test_request_def fmt_d_small)
  have "createJobfile test_dumps test_request = Inr (makeNetstring
        ([''2'', buildSetId test_request, branch test_request, baseRevision test_request,
          fmt_d (patchLevel test_request), diff test_request, repository test_request,
          project test_request] @ builderNames test_request))"
    by (rule v2_layout [OF h, of test_dumps, THEN conjunct2, THEN conjunct1])
  then have "createJobfile test_dumps test_request = Inr (makeNetstring [''2'', ''123-456'',
      ''branch'', ''baserev'', ''0'', ''diff...'', ''repo'', ''proj'', ''runtests''])"
    by (simp add: z) (simp add: test_request_def)
  with h show ?thesis by blast
qed

text \<open>
  C3. In every version the message is the concatenation, with nothing in between, of one
  item per field: the decimal length of the field, a colon, the field itself, a comma. The
  encoding of a field list is injective, so a message determines its fields whatever
  characters they contain.
\<close>

theorem length_prefixing_rule:
  "makeNetstring [] = []
 \<and> makeNetstring (s # ss) = fmt_d (int (length s)) @ '':'' @ s @ '','' @ makeNetstring ss
 \<and> makeNetstring (xs @ ys) = makeNetstring xs @ makeNetstring ys
 \<and> ns s = makeNetstring [s]
 \<and> (valid_request r \<longrightarrow> createJobfile dumps r = Inr (makeNetstring (wire_fields dumps r)))
 \<and> (\<forall>fs gs. makeNetstring fs = makeNetstring gs \<longrightarrow> fs = gs)"
proof -
  have a: "makeNetstring (s # ss) = fmt_d (int (length s)) @ '':'' @ s @ '','' @ makeNetstring ss"
    by (simp add: makeNetstring_def)
  have b: "ns s = makeNetstring [s]" by (simp add: ns_def makeNetstring_def)
  have c: "\<forall>fs gs. makeNetstring fs = makeNetstring gs \<longrightarrow> fs = gs"
    using makeNetstring_inj by blast
  from a b c makeNetstring_Nil makeNetstring_append createJobfile_makeNetstring
  show ?thesis by blast
qed

theorem length_prefixing_rule_witness:
  "makeNetstring [''a,b'', '':''] = ''3:a,b,1::,''
 \<and> valid_request test_request_v5
 \<and> createJobfile test_dumps test_request_v5 = Inr ''1:5,2:{},''
 \<and> makeNetstring [''1:,'', []] \<noteq> makeNetstring [''1'', '','']"
proof -
  note T = length_prefixing_rule [of "[]" "[]" "[]" "[]" test_request_v5 test_dumps]
  have v: "valid_request test_request_v5"
    by (simp add: valid_request_def test_request_v5_def test_request_v4_def test_request_v3_def
        test_request_def)
  have w: "wire_fields test_dumps test_request_v5 = [''5'', ''{}'']"
    by (simp add: wire_fields_def select_version_def test_request_v5_def test_dumps_def fmt_d_tags)
  have m1: "makeNetstring [''a,b'', '':''] = ''3:a,b,1::,''"
    by (simp add: makeNetstring_simps fmt_d_small fmt_d_tags)
  have m2: "makeNetstring [''5'', ''{}''] = ''1:5,2:{},''"
    by (simp add: makeNetstring_simps fmt_d_small fmt_d_tags)
  have "createJobfile test_dumps test_request_v5
      = Inr (makeNetstring (wire_fields test_dumps test_request_v5))"
    using T [THEN conjunct2, THEN conjunct2, THEN conjunct2, THEN conjunct2, THEN conjunct1] v
    by (rule mp)
  then have enc: "createJobfile test_dumps test_request_v5 = Inr ''1:5,2:{},''"
    by (simp only: w m2)
  have "makeNetstring [''1:,'', []] = makeNetstring [''1'', '',''] \<longrightarrow> [''1:,'', []] = [''1'', '','']"
    by (rule T [THEN conjunct2, THEN conjunct2, THEN conjunct2, THEN conjunct2, THEN conjunct2,
          THEN spec, THEN spec])
  then have ne: "makeNetstring [''1:,'', []] \<noteq> makeNetstring [''1'', '','']"
    by auto
  from m1 v enc ne show ?thesis by blast
qed


section \<open>Configuration discovery\<close>

lemma upward_walk_eq:
  "upward_walk toomany here searchpath =
     (if 0 < toomany \<and> toomany \<le> int (length here)
      then Inl (ValueError ''infinite glories of the heavens'')
      else Inr (searchpath @ map (\<lambda>h. path_join h ''.buildbot'') (ancestors here)))"
proof (induction toomany here searchpath rule: upward_walk.induct)
  case (1 toomany here searchpath)
  show ?case
  proof (cases here)
    case Nil
    then show ?thesis
      by (subst upward_walk.simps) (simp add: dirname_def)
  next
    case (Cons c cs)
    then have ne: "dirname here \<noteq> here"
      by (simp add: dirname_def) (metis butlast.simps(2) length_butlast length_Cons lessI less_irrefl_nat diff_Suc_1)
    show ?thesis
    proof (cases "toomany - 1 = 0")
      case True
      with ne Cons show ?thesis
        by (subst upward_walk.simps) simp
    next
      case False
      from Cons have len: "int (length (dirname here)) = int (length here) - 1"
        by (simp add: dirname_def)
      from Cons have anc: "ancestors here = here # ancestors (dirname here)"
        by (simp add: dirname_def)
      from "1.IH" [OF ne False] ne False show ?thesis
        by (subst upward_walk.simps) (auto simp: len anc)
    qed
  qed
qed

lemma scan_pass_over:
  "\<forall>d \<in> set pre. \<not> yields w d \<Longrightarrow> scan w (pre @ rest) out = scan w rest (out @ skipped w pre)"
proof (induction pre arbitrary: out)
  case Nil
  then show ?case by (simp add: skipped_def)
next
  case (Cons d pre)
  from Cons.prems have nd: "\<not> yields w d" and rest: "\<forall>d \<in> set pre. \<not> yields w d" by simp_all
  show ?case
  proof (cases "isdir w d \<and> \<not> win32 w \<and> st_uid w d \<noteq> Some (uid w)")
    case True
    then have "scan w ((d # pre) @ rest) out = scan w (pre @ rest) (out @ [Print (Skipping d)])"
      by simp
    also have "\<dots> = scan w rest ((out @ [Print (Skipping d)]) @ skipped w pre)"
      by (rule Cons.IH [OF rest])
    finally have step: "scan w ((d # pre) @ rest) out
        = scan w rest ((out @ [Print (Skipping d)]) @ skipped w pre)" .
    have sk: "skipped w (d # pre) = Print (Skipping d) # skipped w pre"
      using True by (simp add: skipped_def)
    from step show ?thesis by (simp only: sk append_assoc append_Cons append_Nil)
  next
    case False
    with nd have "scan w ((d # pre) @ rest) out = scan w (pre @ rest) out"
      by (auto simp: yields_def)
    also have "\<dots> = scan w rest (out @ skipped w pre)"
      by (rule Cons.IH [OF rest])
    finally have step: "scan w ((d # pre) @ rest) out = scan w rest (out @ skipped w pre)" .
    have sk: "skipped w (d # pre) = skipped w pre"
      using False by (simp add: skipped_def)
    show ?thesis by (simp only: step sk)
  qed
qed

lemma scan_yields:
  "yields w d \<Longrightarrow> scan w (d # ds) out =
     (case eval_options w (path_join d ''options'') of
        Inl e \<Rightarrow> (out @ [Print (ErrorWhileReading (path_join d ''options''))], Inl e)
      | Inr localDict \<Rightarrow> (out, Inr localDict))"
  by (auto simp: yields_def eval_options_def split: sum.splits)

lemma scan_nothing:
  "\<forall>d \<in> set ds. \<not> yields w d \<Longrightarrow> scan w ds out = (out @ skipped w ds, Inr Map.empty)"
  using scan_pass_over [of ds w "[]" out] by simp

lemma searchpath_candidates:
  "length (cwd w) < 20 \<Longrightarrow>
     upward_walk 20 (cwd w) [] = Inr (map (\<lambda>h. path_join h ''.buildbot'') (ancestors (cwd w)))"
  by (simp add: upward_walk_eq)

lemma loadOptionsFile_scan:
  "length (cwd w) < 20 \<Longrightarrow>
     loadOptionsFile w =
       (case scan w (candidates w) [] of
          (out, Inl e) \<Rightarrow> (out, Inl e)
        | (out, Inr localDict) \<Rightarrow> (out, Inr (strip_dunder localDict)))"
  by (simp add: loadOptionsFile_def searchpath_candidates candidates_def)

lemma loadOptionsFile_too_deep:
  "20 \<le> length (cwd w) \<Longrightarrow>
     loadOptionsFile w = ([], Inl (ValueError ''infinite glories of the heavens''))"
  by (simp add: loadOptionsFile_def upward_walk_eq)

lemma strip_dunder_empty: "strip_dunder Map.empty = Map.empty"
  by (simp add: strip_dunder_def)

lemma ancestors_example:
  "ancestors [''home'', ''u'', ''proj''] = [[''home'', ''u'', ''proj''], [''home'', ''u''], [''home''], []]"
  by simp

text \<open>
  C5. When the walk does not give up, the candidates are the \<open>.buildbot\<close> directories
  of the working directory and of its ancestors, nearest first, then the per-user
  directory. A candidate that does not exist is passed over, and so is one the user does
  not own unless the platform is win32. When \<open>d\<close> is the first candidate that is not
  passed over and has an options file, the result is what that file alone defines (without
  the reserved names), whatever the later candidates hold.
\<close>

theorem first_match_wins:
  assumes "length (cwd w) < 20"
    and "candidates w = pre @ d # post"
    and "\<forall>c \<in> set pre. \<not> yields w c"
    and "yields w d"
    and "eval_options w (path_join d ''options'') = Inr localDict"
  shows "loadOptionsFile w = (skipped w pre, Inr (strip_dunder localDict))
    \<and> candidates w = map (\<lambda>here. path_join here ''.buildbot'') (ancestors (cwd w)) @ [home w]
    \<and> (\<forall>c. files w c = None \<longrightarrow> \<not> yields w c)
    \<and> (\<forall>c. \<not> win32 w \<and> st_uid w c \<noteq> Some (uid w) \<longrightarrow> \<not> yields w c)
    \<and> (\<forall>c. \<not> exists w (path_join c ''options'') \<longrightarrow> \<not> yields w c)"
proof -
  have "scan w (candidates w) [] = scan w (d # post) ([] @ skipped w pre)"
    unfolding assms(2) by (rule scan_pass_over [OF assms(3)])
  also have "\<dots> = (skipped w pre, Inr localDict)"
    by (subst scan_yields [OF assms(4)]) (simp add: assms(5))
  finally have "loadOptionsFile w = (skipped w pre, Inr (strip_dunder localDict))"
    by (simp add: loadOptionsFile_scan [OF assms(1)])
  moreover have "\<forall>c. files w c = None \<longrightarrow> \<not> yields w c"
    by (simp add: yields_def isdir_def)
  moreover have "\<forall>c. \<not> win32 w \<and> st_uid w c \<noteq> Some (uid w) \<longrightarrow> \<not> yields w c"
    by (simp add: yields_def)
  moreover have "\<forall>c. \<not> exists w (path_join c ''options'') \<longrightarrow> \<not> yields w c"
    by (simp add: yields_def)
  ultimately show ?thesis by (simp add: candidates_def)
qed

theorem first_match_wins_witness:
  "length (cwd example_world) < 20
 \<and> candidates example_world =
      [[''home'', ''u'', ''proj'', ''.buildbot'']] @ [''home'', ''u'', ''.buildbot'']
        # [[''home'', ''.buildbot''], [''.buildbot''], [''home'', ''u'', ''.buildbot'']]
 \<and> \<not> yields example_world [''home'', ''u'', ''proj'', ''.buildbot'']
 \<and> yields example_world [''home'', ''u'', ''.buildbot'']
 \<and> loadOptionsFile example_world =
      ([Print (Skipping [''home'', ''u'', ''proj'', ''.buildbot''])],
       Inr [''master'' \<mapsto> PyStr ''localhost:9989''])"
proof -
  let ?pre = "[[''home'', ''u'', ''proj'', ''.buildbot'']]"
  let ?d = "[''home'', ''u'', ''.buildbot'']"
  let ?post = "[[''home'', ''.buildbot''], [''.buildbot''], [''home'', ''u'', ''.buildbot'']]"
  have h1: "length (cwd example_world) < 20"
    by (simp add: example_world_def)
  have h2: "candidates example_world = ?pre @ ?d # ?post"
    by (simp add: candidates_def example_world_def path_join_def)
  have n: "\<not> yields example_world [''home'', ''u'', ''proj'', ''.buildbot'']"
    by (simp add: yields_def isdir_def st_uid_def example_world_def example_files_def)
  then have h3: "\<forall>c \<in> set ?pre. \<not> yields example_world c"
    by simp
  have h4: "yields example_world ?d"
    by (simp add: yields_def isdir_def st_uid_def exists_def path_join_def example_world_def
        example_files_def)
  have h5: "eval_options example_world (path_join ?d ''options'') = Inr example_namespace"
    by (simp add: eval_options_def open_read_def path_join_def example_world_def
        example_files_def example_exec_def)
  have sk: "skipped example_world ?pre = [Print (Skipping [''home'', ''u'', ''proj'', ''.buildbot''])]"
    by (simp add: skipped_def isdir_def st_uid_def example_world_def example_files_def)
  have sd: "strip_dunder example_namespace = [''master'' \<mapsto> PyStr ''localhost:9989'']"
    by (rule ext) (simp add: strip_dunder_def example_namespace_def)
  have "loadOptionsFile example_world = (skipped example_world ?pre, Inr (strip_dunder example_namespace))"
    by (rule first_match_wins [OF h1 h2 h3 h4 h5, THEN conjunct1])
  then have "loadOptionsFile example_world =
      ([Print (Skipping [''home'', ''u'', ''proj'', ''.buildbot''])],
       Inr [''master'' \<mapsto> PyStr ''localhost:9989''])"
    by (simp only: sk sd)
  with h1 h2 n h4 show ?thesis by blast
qed

text \<open>
  C8. The walk gives up with a \<open>ValueError\<close> exactly when the working directory is
  twenty or more levels below the root, so whenever reaching the root takes more than
  twenty steps; nothing has been read by then. When reading or evaluating the options
  file of the first yielding candidate raises, \<open>loadOptionsFile\<close> prints the path of
  that file and raises the same error: it does not go on to the later candidates.
\<close>

theorem discovery_errors_are_fatal:
  "(upward_walk 20 (cwd w) [] = Inl (ValueError ''infinite glories of the heavens'')
      \<longleftrightarrow> 20 \<le> length (cwd w))
 \<and> (20 \<le> length (cwd w) \<longrightarrow>
       loadOptionsFile w = ([], Inl (ValueError ''infinite glories of the heavens'')))
 \<and> (length (cwd w) < 20 \<and> candidates w = pre @ d # post \<and> (\<forall>c \<in> set pre. \<not> yields w c)
     \<and> yields w d \<and> eval_options w (path_join d ''options'') = Inl e \<longrightarrow>
       loadOptionsFile w =
         (skipped w pre @ [Print (ErrorWhileReading (path_join d ''options''))], Inl e))"
proof -
  have a: "upward_walk 20 (cwd w) [] = Inl (ValueError ''infinite glories of the heavens'')
      \<longleftrightarrow> 20 \<le> length (cwd w)"
    by (simp add: upward_walk_eq)
  have b: "20 \<le> length (cwd w) \<longrightarrow>
       loadOptionsFile w = ([], Inl (ValueError ''infinite glories of the heavens''))"
    by (simp add: loadOptionsFile_too_deep)
  have c: "length (cwd w) < 20 \<and> candidates w = pre @ d # post \<and> (\<forall>c \<in> set pre. \<not> yields w c)
     \<and> yields w d \<and> eval_options w (path_join d ''options'') = Inl e \<longrightarrow>
       loadOptionsFile w =
         (skipped w pre @ [Print (ErrorWhileReading (path_join d ''options''))], Inl e)"
  proof (intro impI, elim conjE)
    assume h: "length (cwd w) < 20" "candidates w = pre @ d # post"
      "\<forall>c \<in> set pre. \<not> yields w c" "yields w d"
      "eval_options w (path_join d ''options'') = Inl e"
    have "scan w (candidates w) [] = scan w (d # post) ([] @ skipped w pre)"
      unfolding h(2) by (rule scan_pass_over [OF h(3)])
    also have "\<dots> = (skipped w pre @ [Print (ErrorWhileReading (path_join d ''options''))], Inl e)"
      by (subst scan_yields [OF h(4)]) (simp add: h(5))
    finally show "loadOptionsFile w =
         (skipped w pre @ [Print (ErrorWhileReading (path_join d ''options''))], Inl e)"
      by (simp add: loadOptionsFile_scan [OF h(1)])
  qed
  from a b c show ?thesis by blast
qed

theorem discovery_errors_are_fatal_witness:
  "20 \<le> length (cwd deep_world)
 \<and> loadOptionsFile deep_world = ([], Inl (ValueError ''infinite glories of the heavens''))
 \<and> length (cwd broken_world) < 20
 \<and> yields broken_world [''home'', ''u'', ''.buildbot'']
 \<and> eval_options broken_world [''home'', ''u'', ''.buildbot'', ''options'']
      = Inl (PyExecError ''SyntaxError'')
 \<and> loadOptionsFile broken_world =
      ([Print (Skipping [''home'', ''u'', ''proj'', ''.buildbot'']),
        Print (ErrorWhileReading [''home'', ''u'', ''.buildbot'', ''options''])],
       Inl (PyExecError ''SyntaxError''))"
proof -
  let ?pre = "[[''home'', ''u'', ''proj'', ''.buildbot'']]"
  let ?d = "[''home'', ''u'', ''.buildbot'']"
  let ?post = "[[''home'', ''.buildbot''], [''.buildbot''], [''home'', ''u'', ''.buildbot'']]"
  note T1 = discovery_errors_are_fatal [of deep_world "[]" "[]" "[]" "ValueError []"]
  note T2 = discovery_errors_are_fatal [of broken_world ?pre ?d ?post "PyExecError ''SyntaxError''"]
  have d1: "20 \<le> length (cwd deep_world)"
    by (simp add: deep_world_def)
  have d2: "loadOptionsFile deep_world = ([], Inl (ValueError ''infinite glories of the heavens''))"
    using T1 [THEN conjunct2, THEN conjunct1] d1 by (rule mp)
  have h1: "length (cwd broken_world) < 20"
    by (simp add: broken_world_def example_world_def)
  have h2: "candidates broken_world = ?pre @ ?d # ?post"
    by (simp add: candidates_def broken_world_def example_world_def path_join_def)
  have h3: "\<forall>c \<in> set ?pre. \<not> yields broken_world c"
    by (simp add: yields_def isdir_def st_uid_def broken_world_def example_world_def
        example_files_def)
  have h4: "yields broken_world ?d"
    by (simp add: yields_def isdir_def st_uid_def exists_def path_join_def broken_world_def
        example_world_def example_files_def)
  have h5: "eval_options broken_world (path_join ?d ''options'') = Inl (PyExecError ''SyntaxError'')"
    by (simp add: eval_options_def open_read_def path_join_def broken_world_def example_world_def
        example_files_def example_exec_def)
  have sk: "skipped broken_world ?pre = [Print (Skipping [''home'', ''u'', ''proj'', ''.buildbot''])]"
    by (simp add: skipped_def isdir_def st_uid_def broken_world_def example_world_def
        example_files_def)
  have pj: "path_join ?d ''options'' = [''home'', ''u'', ''.buildbot'', ''options'']"
    by (simp add: path_join_def)
  from h1 h2 h3 h4 h5 have "length (cwd broken_world) < 20 \<and> candidates broken_world = ?pre @ ?d # ?post
     \<and> (\<forall>c \<in> set ?pre. \<not> yields broken_world c) \<and> yields broken_world ?d
     \<and> eval_options broken_world (path_join ?d ''options'') = Inl (PyExecError ''SyntaxError'')"
    by blast
  with T2 [THEN conjunct2, THEN conjunct2]
  have "loadOptionsFile broken_world =
         (skipped broken_world ?pre @ [Print (ErrorWhileReading (path_join ?d ''options''))],
          Inl (PyExecError ''SyntaxError''))"
    by (rule mp)
  then have r: "loadOptionsFile broken_world =
      ([Print (Skipping [''home'', ''u'', ''proj'', ''.buildbot'']),
        Print (ErrorWhileReading [''home'', ''u'', ''.buildbot'', ''options''])],
       Inl (PyExecError ''SyntaxError''))"
    by (simp only: sk pj append_Cons append_Nil)
  from h5 have h5': "eval_options broken_world [''home'', ''u'', ''.buildbot'', ''options'']
      = Inl (PyExecError ''SyntaxError'')"
    by (simp only: pj)
  from d1 d2 h1 h4 h5' r show ?thesis by blast
qed

text \<open>
  C9. When the walk does not give up and every candidate either is not an existing
  directory, or is passed over because the user does not own it, or has no options file,
  \<open>loadOptionsFile\<close> returns the empty mapping and raises nothing.
\<close>

theorem no_options_file_gives_empty:
  assumes "length (cwd w) < 20"
    and "\<forall>c \<in> set (candidates w).
           \<not> isdir w c \<or> (\<not> win32 w \<and> st_uid w c \<noteq> Some (uid w))
           \<or> \<not> exists w (path_join c ''options'')"
  shows "loadOptionsFile w = (skipped w (candidates w), Inr Map.empty)"
proof -
  from assms(2) have "\<forall>c \<in> set (candidates w). \<not> yields w c"
    by (auto simp: yields_def)
  then have "scan w (candidates w) [] = ([] @ skipped w (candidates w), Inr Map.empty)"
    by (rule scan_nothing)
  then show ?thesis
    by (simp add: loadOptionsFile_scan [OF assms(1)] strip_dunder_empty)
qed

theorem no_options_file_gives_empty_witness:
  "length (cwd fruitless_world) < 20
 \<and> candidates fruitless_world =
      [[''home'', ''u'', ''proj'', ''.buildbot''], [''home'', ''u'', ''.buildbot''],
       [''home'', ''.buildbot''], [''.buildbot''], [''home'', ''u'', ''.buildbot'']]
 \<and> loadOptionsFile fruitless_world =
      ([Print (Skipping [''home'', ''u'', ''proj'', ''.buildbot''])], Inr Map.empty)"
proof -
  have h1: "length (cwd fruitless_world) < 20"
    by (simp add: fruitless_world_def example_world_def)
  have c: "candidates fruitless_world =
      [[''home'', ''u'', ''proj'', ''.buildbot''], [''home'', ''u'', ''.buildbot''],
       [''home'', ''.buildbot''], [''.buildbot''], [''home'', ''u'', ''.buildbot'']]"
    by (simp add: candidates_def fruitless_world_def example_world_def path_join_def)
  have h2: "\<forall>c \<in> set (candidates fruitless_world).
           \<not> isdir fruitless_world c
           \<or> (\<not> win32 fruitless_world \<and> st_uid fruitless_world c \<noteq> Some (uid fruitless_world))
           \<or> \<not> exists fruitless_world (path_join c ''options'')"
    unfolding c
    by (simp add: isdir_def st_uid_def exists_def path_join_def fruitless_world_def
        example_world_def)
  have sk: "skipped fruitless_world (candidates fruitless_world)
      = [Print (Skipping [''home'', ''u'', ''proj'', ''.buildbot''])]"
    unfolding c
    by (simp add: skipped_def isdir_def st_uid_def fruitless_world_def example_world_def)
  from no_options_file_gives_empty [OF h1 h2] sk
  have "loadOptionsFile fruitless_world =
      ([Print (Skipping [''home'', ''u'', ''proj'', ''.buildbot''])], Inr Map.empty)"
    by simp
  with h1 c show ?thesis by blast
qed

section \<open>Stopping with wait\<close>

lemma poll_Inr: "snd (poll w quiet pid n timer tr) = Inr ()"
proof (induction w quiet pid n timer tr rule: poll.induct)
  case (1 w quiet pid n timer tr)
  then show ?case
    by (subst poll.simps) (auto split: option.splits)
qed

lemma poll_alive:
  "(\<forall>i < k. kill_result w (n + i) pid 0 = None) \<Longrightarrow> timer + int k \<le> 10 \<Longrightarrow>
     poll w quiet pid n timer tr = poll w quiet pid (n + k) (timer + int k) (tr @ probes pid k)"
proof (induction k arbitrary: n timer tr)
  case 0
  then show ?case by (simp add: probes_def)
next
  case (Suc k)
  from Suc.prems(1) have first: "kill_result w n pid 0 = None"
    by (metis add.right_neutral zero_less_Suc)
  from Suc.prems(1) have rest: "\<forall>i < k. kill_result w (n + 1 + i) pid 0 = None"
    by (metis Suc_less_eq add.assoc plus_1_eq_Suc)
  from Suc.prems(2) have t: "timer < 10" "timer + 1 + int k \<le> 10" by simp_all
  have "poll w quiet pid n timer tr
      = poll w quiet pid (n + 1) (timer + 1) (tr @ [Kill pid 0, Sleep 1000])"
    using first t(1) by (subst poll.simps) simp
  also have "\<dots> = poll w quiet pid (n + 1 + k) (timer + 1 + int k)
      ((tr @ [Kill pid 0, Sleep 1000]) @ probes pid k)"
    by (rule Suc.IH [OF rest t(2)])
  finally show ?case
    by (simp add: probes_def add.commute add.left_commute)
qed

lemma poll_timeout:
  assumes "\<forall>i < 10. kill_result w (n + i) pid 0 = None"
  shows "poll w quiet pid n 0 tr
    = (tr @ probes pid 10 @ (if quiet then [] else [Print NeverSawProcessGoAway]), Inr ())"
proof -
  have "poll w quiet pid n 0 tr = poll w quiet pid (n + 10) (0 + int 10) (tr @ probes pid 10)"
    by (rule poll_alive [OF assms]) simp
  also have "\<dots> = ((tr @ probes pid 10) @ (if quiet then [] else [Print NeverSawProcessGoAway]), Inr ())"
    by (subst poll.simps) simp
  finally show ?thesis by simp
qed

lemma poll_dead:
  assumes "\<forall>i < k. kill_result w (n + i) pid 0 = None" and "k < 10"
    and "kill_result w (n + k) pid 0 = Some errno"
  shows "poll w quiet pid n 0 tr
    = (tr @ probes pid k @ [Kill pid 0] @ (if quiet then [] else [Print (ProcessDead pid)]), Inr ())"
proof -
  from assms(2) have "0 + int k \<le> 10" by simp
  with assms(1) have "poll w quiet pid n 0 tr
      = poll w quiet pid (n + k) (0 + int k) (tr @ probes pid k)"
    by (rule poll_alive)
  also have "\<dots> = ((tr @ probes pid k) @ [Kill pid 0]
      @ (if quiet then [] else [Print (ProcessDead pid)]), Inr ())"
    using assms(2,3) by (subst poll.simps) simp
  finally show ?thesis by simp
qed

lemma stop_wait:
  "signalled w basedir signame pid signum \<Longrightarrow>
     stop w basedir quiet signame True
       = poll w quiet pid 1 0 [Chdir basedir, Kill pid signum, Sleep 100]"
  by (auto simp: signalled_def stop_def after_signal_def)

lemma length_probes: "length (probes pid k) = 2 * k"
  by (induction k) (simp_all add: probes_def)

lemma example_tac_marker: "sublist buildmaster_marker example_tac"
  unfolding example_tac_def by (rule sublist_append_leftI)

text \<open>
  C7. Once the signal has been sent (delivered, or met with "no such process"),
  stop-with-wait sleeps a tenth of a second and then probes with signal 0, sleeping one
  second after each probe that finds the process. If the process is there at all ten
  probes, the call makes exactly ten probes and returns normally, printing "never saw
  process go away" unless quiet. If the \<open>k\<close>-th probe (\<open>k\<close> from 1 to 10) is the first
  to raise, the call returns normally right after it. In no case does it raise.
\<close>

theorem stop_wait_bounded_polling:
  assumes "signalled w basedir signame pid signum"
  shows "((\<forall>i \<in> {1..10}. kill_result w i pid 0 = None) \<longrightarrow>
            stop w basedir quiet signame True =
              ([Chdir basedir, Kill pid signum, Sleep 100] @ probes pid 10
                 @ (if quiet then [] else [Print NeverSawProcessGoAway]), Inr ()))
       \<and> (\<forall>k errno. 1 \<le> k \<and> k \<le> 10 \<and> (\<forall>i \<in> {1..<k}. kill_result w i pid 0 = None)
              \<and> kill_result w k pid 0 = Some errno \<longrightarrow>
            stop w basedir quiet signame True =
              ([Chdir basedir, Kill pid signum, Sleep 100] @ probes pid (k - 1) @ [Kill pid 0]
                 @ (if quiet then [] else [Print (ProcessDead pid)]), Inr ()))
       \<and> snd (stop w basedir quiet signame True) = Inr ()
       \<and> length (probes pid 10) = 20"
proof -
  note sw = stop_wait [OF assms, of quiet]
  have timeout: "(\<forall>i \<in> {1..10}. kill_result w i pid 0 = None) \<longrightarrow>
            stop w basedir quiet signame True =
              ([Chdir basedir, Kill pid signum, Sleep 100] @ probes pid 10
                 @ (if quiet then [] else [Print NeverSawProcessGoAway]), Inr ())"
  proof
    assume "\<forall>i \<in> {1..10}. kill_result w i pid 0 = None"
    then have "\<forall>i < 10. kill_result w (1 + i) pid 0 = None" by simp
    then show "stop w basedir quiet signame True =
              ([Chdir basedir, Kill pid signum, Sleep 100] @ probes pid 10
                 @ (if quiet then [] else [Print NeverSawProcessGoAway]), Inr ())"
      unfolding sw by (rule poll_timeout)
  qed
  have dead: "\<forall>k errno. 1 \<le> k \<and> k \<le> 10 \<and> (\<forall>i \<in> {1..<k}. kill_result w i pid 0 = None)
              \<and> kill_result w k pid 0 = Some errno \<longrightarrow>
            stop w basedir quiet signame True =
              ([Chdir basedir, Kill pid signum, Sleep 100] @ probes pid (k - 1) @ [Kill pid 0]
                 @ (if quiet then [] else [Print (ProcessDead pid)]), Inr ())"
  proof (intro allI impI, elim conjE)
    fix k errno
    assume k: "1 \<le> k" "k \<le> 10" and alive: "\<forall>i \<in> {1..<k}. kill_result w i pid 0 = None"
      and gone: "kill_result w k pid 0 = Some errno"
    from alive k(1) have a: "\<forall>i < k - 1. kill_result w (1 + i) pid 0 = None" by simp
    from k have b: "k - 1 < 10" by simp
    from gone k(1) have c: "kill_result w (1 + (k - 1)) pid 0 = Some errno" by simp
    show "stop w basedir quiet signame True =
              ([Chdir basedir, Kill pid signum, Sleep 100] @ probes pid (k - 1) @ [Kill pid 0]
                 @ (if quiet then [] else [Print (ProcessDead pid)]), Inr ())"
      unfolding sw by (rule poll_dead [OF a b c])
  qed
  have ret: "snd (stop w basedir quiet signame True) = Inr ()"
    unfolding sw by (rule poll_Inr)
  have len: "length (probes pid 10) = 20"
    by (rule length_probes [of pid 10, simplified])
  from timeout dead ret len show ?thesis by blast
qed

lemma master_signalled:
  "signalled master_world [''srv'', ''master''] ''TERM'' 4242 15"
  by (simp add: signalled_def isBuildmasterDir_def read_pid_def open_read_def path_join_def
      master_world_def example_world_def master_files_def example_tac_marker)

lemma stubborn_signalled:
  "signalled stubborn_world [''srv'', ''master''] ''TERM'' 4242 15"
  by (simp add: signalled_def isBuildmasterDir_def read_pid_def open_read_def path_join_def
      stubborn_world_def master_world_def example_world_def master_files_def
      example_tac_marker)

theorem stop_wait_bounded_polling_witness:
  "signalled master_world [''srv'', ''master''] ''TERM'' 4242 15
 \<and> stop master_world [''srv'', ''master''] False ''TERM'' True =
      ([Chdir [''srv'', ''master''], Kill 4242 15, Sleep 100, Kill 4242 0, Sleep 1000,
        Kill 4242 0, Sleep 1000, Kill 4242 0, Print (ProcessDead 4242)], Inr ())
 \<and> signalled stubborn_world [''srv'', ''master''] ''TERM'' 4242 15
 \<and> stop stubborn_world [''srv'', ''master''] True ''TERM'' True =
      ([Chdir [''srv'', ''master''], Kill 4242 15, Sleep 100] @ probes 4242 10, Inr ())"
proof -
  note M = stop_wait_bounded_polling [OF master_signalled, of False]
  note S = stop_wait_bounded_polling [OF stubborn_signalled, of True]
  have "1 \<le> (3::nat) \<and> (3::nat) \<le> 10 \<and> (\<forall>i \<in> {1..<3}. kill_result master_world i 4242 0 = None)
      \<and> kill_result master_world 3 4242 0 = Some 3"
    by (simp add: master_world_def example_world_def)
  with M [THEN conjunct2, THEN conjunct1, THEN spec, THEN spec]
  have "stop master_world [''srv'', ''master''] False ''TERM'' True =
      ([Chdir [''srv'', ''master''], Kill 4242 15, Sleep 100] @ probes 4242 (3 - 1) @ [Kill 4242 0]
         @ (if False then [] else [Print (ProcessDead 4242)]), Inr ())"
    by (rule mp)
  moreover have "probes 4242 (3 - 1) = [Kill 4242 0, Sleep 1000, Kill 4242 0, Sleep 1000]"
    by (simp add: probes_def numeral_2_eq_2)
  ultimately have m: "stop master_world [''srv'', ''master''] False ''TERM'' True =
      ([Chdir [''srv'', ''master''], Kill 4242 15, Sleep 100, Kill 4242 0, Sleep 1000,
        Kill 4242 0, Sleep 1000, Kill 4242 0, Print (ProcessDead 4242)], Inr ())"
    by simp
  have "\<forall>i \<in> {1..10}. kill_result stubborn_world i 4242 0 = None"
    by (simp add: stubborn_world_def)
  with S [THEN conjunct1]
  have "stop stubborn_world [''srv'', ''master''] True ''TERM'' True =
      ([Chdir [''srv'', ''master''], Kill 4242 15, Sleep 100] @ probes 4242 10
         @ (if True then [] else [Print NeverSawProcessGoAway]), Inr ())"
    by (rule mp)
  then have s: "stop stubborn_world [''srv'', ''master''] True ''TERM'' True =
      ([Chdir [''srv'', ''master''], Kill 4242 15, Sleep 100] @ probes 4242 10, Inr ())"
    by simp
  from master_signalled m stubborn_signalled s show ?thesis by blast
qed

section \<open>Spool delivery\<close>

lemma tmp_neq_new: "path_join (path_join jd ''tmp'') fn \<noteq> path_join (path_join jd ''new'') fn"
  by (simp add: path_join_def)

lemma open_write_Inr:
  "open_write fs p = Inr fs1 \<Longrightarrow> fs1 = fs(p \<mapsto> File [])"
  by (auto simp: open_write_def split: option.splits node.splits)

lemma open_write_ok:
  "fs (dirname p) = Some (Dir owner) \<Longrightarrow> (\<forall>o'. fs p \<noteq> Some (Dir o')) \<Longrightarrow>
     open_write fs p = Inr (fs(p \<mapsto> File []))"
  by (auto simp: open_write_def split: option.splits node.splits)

lemma rename_Inr:
  "rename fs src dst = Inr fs3 \<Longrightarrow> \<exists>n. fs src = Some n \<and> fs3 = (fs(dst \<mapsto> n))(src := None)"
  by (auto simp: rename_def split: option.splits node.splits)

lemma rename_ok:
  "fs src = Some n \<Longrightarrow> fs (dirname dst) = Some (Dir owner) \<Longrightarrow> (\<forall>o'. fs dst \<noteq> Some (Dir o')) \<Longrightarrow>
     rename fs src dst = Inr ((fs(dst \<mapsto> n))(src := None))"
  by (auto simp: rename_def split: option.splits node.splits)

lemma doTryServer_unfold:
  assumes "tmp = path_join (path_join jd ''tmp'') (fmt_d (now w) @ ''-'' @ md5_hexdigest w job)"
    and "new = path_join (path_join jd ''new'') (fmt_d (now w) @ ''-'' @ md5_hexdigest w job)"
  shows "doTryServer w (Some jd) job =
     (case open_write (files w) tmp of
        Inl e \<Rightarrow> ([OpenWrite tmp], files w, Inl e)
      | Inr fs1 \<Rightarrow>
          (case rename (fs1(tmp \<mapsto> File job)) tmp new of
             Inl e \<Rightarrow>
               ([OpenWrite tmp, Write tmp job, Close tmp, Rename tmp new],
                fs1(tmp \<mapsto> File job), Inl e)
           | Inr fs3 \<Rightarrow>
               ([OpenWrite tmp, Write tmp job, Close tmp, Rename tmp new], fs3, Inr ())))"
  unfolding doTryServer_def Let_def option.case assms [symmetric] by (rule refl)

lemma doTryServer_cases:
  assumes "tmp = path_join (path_join jd ''tmp'') (fmt_d (now w) @ ''-'' @ md5_hexdigest w job)"
    and "new = path_join (path_join jd ''new'') (fmt_d (now w) @ ''-'' @ md5_hexdigest w job)"
  shows "(\<exists>e. doTryServer w (Some jd) job = ([OpenWrite tmp], files w, Inl e))
       \<or> (\<exists>e. doTryServer w (Some jd) job =
             ([OpenWrite tmp, Write tmp job, Close tmp, Rename tmp new],
              (files w)(tmp \<mapsto> File job), Inl e))
       \<or> doTryServer w (Some jd) job =
             ([OpenWrite tmp, Write tmp job, Close tmp, Rename tmp new],
              ((files w)(new \<mapsto> File job))(tmp := None), Inr ())"
proof (cases "open_write (files w) tmp")
  case (Inl e)
  then show ?thesis
    by (simp add: doTryServer_unfold [OF assms])
next
  case (Inr fs1)
  then have fs1: "fs1 = (files w)(tmp \<mapsto> File [])" by (rule open_write_Inr)
  show ?thesis
  proof (cases "rename (fs1(tmp \<mapsto> File job)) tmp new")
    case (Inl e)
    with Inr fs1 show ?thesis
      by (simp add: doTryServer_unfold [OF assms])
  next
    case ren: (Inr fs3)
    from rename_Inr [OF ren] have "fs3 = ((fs1(tmp \<mapsto> File job))(new \<mapsto> File job))(tmp := None)"
      by auto
    with fs1 have "fs3 = ((files w)(new \<mapsto> File job))(tmp := None)"
      by (auto simp: fun_eq_iff)
    with Inr ren show ?thesis
      by (simp add: doTryServer_unfold [OF assms])
  qed
qed

text \<open>
  C6. The job is written to \<open>jobdir/tmp/fn\<close> and then renamed to \<open>jobdir/new/fn\<close>,
  where \<open>fn\<close> is the decimal Unix time, a dash and the hex digest of the job. The file
  operations are, in order, at most: open the staging file, write the whole job, close,
  one rename; the rename is the last and the only one that names the visible path. When
  the call succeeds the visible file holds exactly the job and the staging file is gone;
  when it fails the visible path is as it was. It succeeds whenever both subdirectories
  exist and neither path is a directory.
\<close>

theorem spool_delivery:
  assumes "fn = fmt_d (now w) @ ''-'' @ md5_hexdigest w job"
    and "tmp = path_join (path_join jd ''tmp'') fn"
    and "new = path_join (path_join jd ''new'') fn"
    and "doTryServer w (Some jd) job = (tr, fs', r)"
  shows "prefix tr [OpenWrite tmp, Write tmp job, Close tmp, Rename tmp new]
       \<and> tmp \<noteq> new
       \<and> (r = Inr () \<longrightarrow>
             tr = [OpenWrite tmp, Write tmp job, Close tmp, Rename tmp new]
           \<and> fs' new = Some (File job) \<and> fs' tmp = None
           \<and> (\<forall>p. p \<noteq> tmp \<and> p \<noteq> new \<longrightarrow> fs' p = files w p))
       \<and> (r \<noteq> Inr () \<longrightarrow> fs' new = files w new)
       \<and> (isdir w (path_join jd ''tmp'') \<and> isdir w (path_join jd ''new'')
            \<and> \<not> isdir w tmp \<and> \<not> isdir w new \<longrightarrow> r = Inr ())"
proof -
  have ne: "tmp \<noteq> new" unfolding assms(2,3) by (rule tmp_neq_new)
  have t: "tmp = path_join (path_join jd ''tmp'') (fmt_d (now w) @ ''-'' @ md5_hexdigest w job)"
    and n: "new = path_join (path_join jd ''new'') (fmt_d (now w) @ ''-'' @ md5_hexdigest w job)"
    by (simp_all add: assms(1,2,3))
  have ok: "isdir w (path_join jd ''tmp'') \<and> isdir w (path_join jd ''new'')
            \<and> \<not> isdir w tmp \<and> \<not> isdir w new \<longrightarrow> r = Inr ()"
  proof
    assume h: "isdir w (path_join jd ''tmp'') \<and> isdir w (path_join jd ''new'')
            \<and> \<not> isdir w tmp \<and> \<not> isdir w new"
    have dt: "dirname tmp = path_join jd ''tmp''" and dn: "dirname new = path_join jd ''new''"
      by (simp_all add: assms(2,3) dirname_def path_join_def butlast_append)
    from h obtain o1 o2 where d1: "files w (dirname tmp) = Some (Dir o1)"
      and d2: "files w (dirname new) = Some (Dir o2)"
      by (auto simp: dt dn isdir_def split: option.splits node.splits)
    from h have nd: "\<forall>o'. files w tmp \<noteq> Some (Dir o')" "\<forall>o'. files w new \<noteq> Some (Dir o')"
      by (auto simp: isdir_def)
    have ow: "open_write (files w) tmp = Inr ((files w)(tmp \<mapsto> File []))"
      using d1 nd(1) by (rule open_write_ok)
    have dn_ne: "dirname new \<noteq> tmp"
      by (simp add: dn assms(2) path_join_def)
    have "rename (((files w)(tmp \<mapsto> File []))(tmp \<mapsto> File job)) tmp new
        = Inr (((((files w)(tmp \<mapsto> File []))(tmp \<mapsto> File job))(new \<mapsto> File job))(tmp := None))"
      using d2 nd(2) ne dn_ne by (intro rename_ok) auto
    with ow have "snd (snd (doTryServer w (Some jd) job)) = Inr ()"
      by (simp add: doTryServer_unfold [OF t n])
    with assms(4) show "r = Inr ()" by simp
  qed
  from doTryServer_cases [OF t n] assms(4) ne ok show ?thesis
    by (elim disjE exE) auto
qed

lemma digit_chars:
  "digit 0 = CHR ''0''" "digit 1 = CHR ''1''" "digit 2 = CHR ''2''" "digit 3 = CHR ''3''"
  "digit 4 = CHR ''4''" "digit 5 = CHR ''5''" "digit 6 = CHR ''6''" "digit 7 = CHR ''7''"
  "digit 8 = CHR ''8''" "digit 9 = CHR ''9''" "digit (Suc 0) = CHR ''1''"
  by code_simp+

lemma fmt_nat_step: "10 \<le> n \<Longrightarrow> fmt_nat n = fmt_nat (n div 10) @ [digit (n mod 10)]"
  by (subst fmt_nat.simps) simp

lemma fmt_d_example_time: "fmt_d 1300000000 = ''1300000000''"
  by (simp add: fmt_d_def fmt_nat_step fmt_nat_digit digit_chars)

theorem spool_delivery_witness:
  "fst (doTryServer master_world (Some [''srv'', ''jobdir'']) ''1:2,'') =
      [OpenWrite [''srv'', ''jobdir'', ''tmp'', ''1300000000-d41d8cd9''],
       Write [''srv'', ''jobdir'', ''tmp'', ''1300000000-d41d8cd9''] ''1:2,'',
       Close [''srv'', ''jobdir'', ''tmp'', ''1300000000-d41d8cd9''],
       Rename [''srv'', ''jobdir'', ''tmp'', ''1300000000-d41d8cd9'']
         [''srv'', ''jobdir'', ''new'', ''1300000000-d41d8cd9'']]
 \<and> fst (snd (doTryServer master_world (Some [''srv'', ''jobdir'']) ''1:2,''))
      [''srv'', ''jobdir'', ''new'', ''1300000000-d41d8cd9''] = Some (File ''1:2,'')
 \<and> fst (snd (doTryServer master_world (Some [''srv'', ''jobdir'']) ''1:2,''))
      [''srv'', ''jobdir'', ''tmp'', ''1300000000-d41d8cd9''] = None
 \<and> snd (snd (doTryServer master_world (Some [''srv'', ''jobdir'']) ''1:2,'')) = Inr ()"
proof -
  let ?run = "doTryServer master_world (Some [''srv'', ''jobdir'']) ''1:2,''"
  let ?tmp = "[''srv'', ''jobdir'', ''tmp'', ''1300000000-d41d8cd9'']"
  let ?new = "[''srv'', ''jobdir'', ''new'', ''1300000000-d41d8cd9'']"
  have fn: "''1300000000-d41d8cd9'' = fmt_d (now master_world) @ ''-'' @ md5_hexdigest master_world ''1:2,''"
    by (simp add: master_world_def example_world_def fmt_d_example_time)
  have tmp: "?tmp = path_join (path_join [''srv'', ''jobdir''] ''tmp'') ''1300000000-d41d8cd9''"
    and new: "?new = path_join (path_join [''srv'', ''jobdir''] ''new'') ''1300000000-d41d8cd9''"
    by (simp_all add: path_join_def)
  have run: "?run = (fst ?run, fst (snd ?run), snd (snd ?run))"
    by simp
  note T = spool_delivery [OF fn tmp new run]
  have dirs: "isdir master_world (path_join [''srv'', ''jobdir''] ''tmp'')
      \<and> isdir master_world (path_join [''srv'', ''jobdir''] ''new'')
      \<and> \<not> isdir master_world ?tmp \<and> \<not> isdir master_world ?new"
    by (simp add: isdir_def path_join_def master_world_def master_files_def)
  have r: "snd (snd ?run) = Inr ()"
    using T [THEN conjunct2, THEN conjunct2, THEN conjunct2, THEN conjunct2] dirs by (rule mp)
  from T [THEN conjunct2, THEN conjunct2, THEN conjunct1] r
  have "fst ?run = [OpenWrite ?tmp, Write ?tmp ''1:2,'', Close ?tmp, Rename ?tmp ?new]
      \<and> fst (snd ?run) ?new = Some (File ''1:2,'') \<and> fst (snd ?run) ?tmp = None"
    by blast
  with r show ?thesis by blast
qed

end
